theory Spec2Isabelle
  imports Complex_Main "HOL-Library.Monad_Syntax" "HOL-Library.Multiset" "HOL-Library.AList"
begin

section \<open>JavaScript numbers\<close>

text \<open>
  The engine computes with JavaScript numbers. A finite number is modelled by the real it
  denotes (no rounding, no overflow to an infinity); the value \<open>NaN\<close> is kept, because
  the code produces it from finite inputs (the mean of an empty history is \<open>0 / 0\<close>) and
  every comparison with it is false. \<open>undefined\<close> and \<open>null\<close> are \<open>None\<close> of an
  option type.
\<close>

datatype number = NaN | Num real

fun js_add :: "number \<Rightarrow> number \<Rightarrow> number" where
  "js_add (Num a) (Num b) = Num (a + b)"
| "js_add _ _ = NaN"

fun js_sub :: "number \<Rightarrow> number \<Rightarrow> number" where
  "js_sub (Num a) (Num b) = Num (a - b)"
| "js_sub _ _ = NaN"

fun js_mul :: "number \<Rightarrow> number \<Rightarrow> number" where
  "js_mul (Num a) (Num b) = Num (a * b)"
| "js_mul _ _ = NaN"

text \<open>
  \<open>a / b\<close>. Every division of the modelled code whose divisor can be zero divides an
  empty sum, that is \<open>0 / 0\<close>, which is \<open>NaN\<close>; a non-zero dividend over zero (an
  infinity in JavaScript) does not occur.
\<close>

fun js_div :: "number \<Rightarrow> number \<Rightarrow> number" where
  "js_div (Num a) (Num b) = (if b = 0 then NaN else Num (a / b))"
| "js_div _ _ = NaN"

fun js_lt :: "number \<Rightarrow> number \<Rightarrow> bool" where
  "js_lt (Num a) (Num b) = (a < b)"
| "js_lt _ _ = False"

fun js_le :: "number \<Rightarrow> number \<Rightarrow> bool" where
  "js_le (Num a) (Num b) = (a \<le> b)"
| "js_le _ _ = False"

fun Math_min :: "number \<Rightarrow> number \<Rightarrow> number" where
  "Math_min (Num a) (Num b) = Num (min a b)"
| "Math_min _ _ = NaN"

fun Math_max :: "number \<Rightarrow> number \<Rightarrow> number" where
  "Math_max (Num a) (Num b) = Num (max a b)"
| "Math_max _ _ = NaN"

fun Math_abs :: "number \<Rightarrow> number" where
  "Math_abs (Num a) = Num \<bar>a\<bar>"
| "Math_abs NaN = NaN"

fun Math_floor :: "number \<Rightarrow> number" where
  "Math_floor (Num a) = Num (of_int \<lfloor>a\<rfloor>)"
| "Math_floor NaN = NaN"

fun Math_sqrt :: "number \<Rightarrow> number" where
  "Math_sqrt (Num a) = (if a < 0 then NaN else Num (sqrt a))"
| "Math_sqrt NaN = NaN"

text \<open>\<open>Math.pow(x, n)\<close> for a non-negative integer exponent.\<close>

fun Math_pow :: "number \<Rightarrow> nat \<Rightarrow> number" where
  "Math_pow (Num a) n = Num (a ^ n)"
| "Math_pow NaN n = (if n = 0 then Num 1 else NaN)"

text \<open>\<open>a || b\<close> on numbers: \<open>0\<close>, \<open>NaN\<close> and \<open>undefined\<close> are falsy.\<close>

definition js_falsy :: "number \<Rightarrow> bool" where
  "js_falsy a = (a = NaN \<or> a = Num 0)"

definition js_or :: "number \<Rightarrow> number \<Rightarrow> number" where
  "js_or a b = (if js_falsy a then b else a)"

definition js_or_undef :: "number option \<Rightarrow> number \<Rightarrow> number" where
  "js_or_undef a b = (case a of None \<Rightarrow> b | Some x \<Rightarrow> js_or x b)"

text \<open>\<open>xs[i]\<close>: \<open>undefined\<close> out of range.\<close>

definition js_index :: "'a list \<Rightarrow> nat \<Rightarrow> 'a option" where
  "js_index xs i = (if i < length xs then Some (xs ! i) else None)"

section \<open>Dates\<close>

text \<open>
  A \<open>Date\<close> by its calendar fields (months \<open>0..11\<close>), with the carry of
  \<open>setMonth\<close>: a month index past 11 moves the year, a day past the end of the new
  month moves into the next month. Time zones are not modelled.
\<close>

record JsDate =
  fullYear :: int
  monthIndex :: nat
  dayOfMonth :: nat
  msOfDay :: nat

definition isLeapYear :: "int \<Rightarrow> bool" where
  "isLeapYear y = (y mod 4 = 0 \<and> (y mod 100 \<noteq> 0 \<or> y mod 400 = 0))"

definition daysInMonth :: "int \<Rightarrow> nat \<Rightarrow> nat" where
  "daysInMonth y m =
     (if m = 1 then (if isLeapYear y then 29 else 28)
      else if m = 3 \<or> m = 5 \<or> m = 8 \<or> m = 10 then 30 else 31)"

definition setMonth :: "JsDate \<Rightarrow> nat \<Rightarrow> JsDate" where
  "setMonth d k =
     (let y = fullYear d + int (k div 12); m = k mod 12; n = daysInMonth y m
      in if dayOfMonth d \<le> n then d\<lparr>fullYear := y, monthIndex := m\<rparr>
         else d\<lparr>fullYear := (if m = 11 then y + 1 else y), monthIndex := (m + 1) mod 12,
                dayOfMonth := dayOfMonth d - n\<rparr>)"

text \<open>\<open>new Date(year, monthValue, 1)\<close>: the first day of a month, at midnight.\<close>

definition firstOfMonth :: "int \<Rightarrow> nat \<Rightarrow> JsDate" where
  "firstOfMonth y k =
     \<lparr>fullYear = y + int (k div 12), monthIndex = k mod 12, dayOfMonth = 1, msOfDay = 0\<rparr>"

section \<open>The Monte Carlo engine: data model\<close>

datatype ScenarioType = BASE | OPTIMISTIC | PESSIMISTIC | STRESS_TEST

record CustomVariables =
  cv_baseInflowMean :: "number option"
  cv_baseInflowStd :: "number option"
  cv_baseOutflowMean :: "number option"
  cv_baseOutflowStd :: "number option"
  cv_growthRateMean :: "number option"
  cv_growthRateStd :: "number option"
  cv_seasonalityVariance :: "number option"

text \<open>
  \<open>'n\<close> is the type of \<open>numRuns\<close> and \<open>timeHorizon\<close>. The engine computes with them as
  the numbers that \<open>SimulationParameters\<close> declares (\<open>real\<close>: a JSON number or a default,
  never \<open>NaN\<close>); the request handler builds the record from the values that the body of
  the request holds, whatever they are.
\<close>

record 'n SimulationParameters =
  numRuns :: 'n
  timeHorizon :: 'n
  scenario :: ScenarioType
  segmentId :: "string option"
  customVariables :: "CustomVariables option"

record MonthlyResult =
  month :: nat
  inflow :: number
  outflow :: number
  netFlow :: number
  cumulativeBalance :: number
  date :: JsDate

record SimulationRun =
  runNumber :: nat
  monthlyResults :: "MonthlyResult list"
  finalBalance :: number
  minBalance :: number
  maxBalance :: number
  probabilityNegative :: real
  runwayMonths :: "number option"

record Statistics =
  meanFinalBalance :: number
  medianFinalBalance :: "number option"
  percentile5 :: "number option"
  percentile95 :: "number option"
  stat_probabilityNegative :: number
  averageRunway :: number
  worstCaseRunway :: number
  bestCaseRunway :: number

record SensitivityAnalysis =
  inflowImpact :: real
  outflowImpact :: real
  growthImpact :: real
  seasonalityImpact :: real

record 'n SimulationSummary =
  simulationId :: string
  parameters :: "'n SimulationParameters"
  runs :: "SimulationRun list"
  statistics :: Statistics
  sensitivityAnalysis :: SensitivityAnalysis

record HistoricalData =
  inflows :: "number list"
  outflows :: "number list"

record GrowthRate =
  mean :: number
  std :: number

record Seasonality =
  season_inflow :: "real list"
  season_outflow :: "real list"

record BaseParameters =
  baseInflowMean :: number
  baseInflowStd :: number
  baseOutflowMean :: number
  baseOutflowStd :: number
  growthRate :: GrowthRate
  seasonality :: Seasonality
  startingBalance :: number

section \<open>The random source\<close>

text \<open>
  \<open>Math.random()\<close> is an infinite stream of reals of \<open>[0, 1)\<close>, read at a position
  that every call advances. The loop \<open>while (u === 0) u = Math.random()\<close> draws until
  a value is not zero; on a stream that is zero from some position on it never returns,
  which is the value \<open>None\<close>.
\<close>

partial_function (option) randomNonZero :: "(nat \<Rightarrow> real) \<Rightarrow> nat \<Rightarrow> (real \<times> nat) option" where
  "randomNonZero rs i = (if rs i = 0 then randomNonZero rs (Suc i) else Some (rs i, Suc i))"

text \<open>The Box-Muller transformation; the result comes with the next position.\<close>

definition randomNormal :: "(nat \<Rightarrow> real) \<Rightarrow> nat \<Rightarrow> number \<Rightarrow> number \<Rightarrow> (number \<times> nat) option" where
  "randomNormal rs i mean' std' =
     do {
       (u, j) \<leftarrow> randomNonZero rs i;
       (v, k) \<leftarrow> randomNonZero rs j;
       let z = sqrt (- 2 * ln u) * cos (2 * pi * v);
       Some (js_add (js_mul (Num z) std') mean', k)
     }"

section \<open>One simulated month\<close>

definition inflowMultiplier :: "ScenarioType \<Rightarrow> real" where
  "inflowMultiplier s =
     (case s of OPTIMISTIC \<Rightarrow> 1.2 | BASE \<Rightarrow> 1.0 | PESSIMISTIC \<Rightarrow> 0.8 | STRESS_TEST \<Rightarrow> 0.6)"

definition outflowMultiplier :: "ScenarioType \<Rightarrow> real" where
  "outflowMultiplier s =
     (case s of OPTIMISTIC \<Rightarrow> 0.9 | BASE \<Rightarrow> 1.0 | PESSIMISTIC \<Rightarrow> 1.1 | STRESS_TEST \<Rightarrow> 1.3)"

text \<open>\<open>table[i] || 1.0\<close>: a missing or zero entry counts as \<open>1.0\<close>.\<close>

definition seasonalEntry :: "real list \<Rightarrow> nat \<Rightarrow> real" where
  "seasonalEntry table i = (case js_index table i of None \<Rightarrow> 1 | Some f \<Rightarrow> if f = 0 then 1 else f)"

definition generateRandomInflow ::
  "(nat \<Rightarrow> real) \<Rightarrow> nat \<Rightarrow> nat \<Rightarrow> BaseParameters \<Rightarrow> ScenarioType \<Rightarrow> (number \<times> nat) option" where
  "generateRandomInflow rs i m baseParams sc =
     do {
       let scenarioMultiplier = inflowMultiplier sc;
       (g, i1) \<leftarrow> randomNormal rs i (mean (growthRate baseParams)) (std (growthRate baseParams));
       let growthFactor = Math_pow (js_add (Num 1) g) m;
       let seasonalFactor = seasonalEntry (season_inflow (seasonality baseParams)) (m mod 12);
       (randomFactor, i2) \<leftarrow> randomNormal rs i1 (Num 1.0) (Num 0.1);
       (baseAmount, i3) \<leftarrow> randomNormal rs i2 (baseInflowMean baseParams) (baseInflowStd baseParams);
       Some (Math_max (Num 0)
               (js_mul (js_mul (js_mul (js_mul baseAmount (Num scenarioMultiplier)) growthFactor)
                          (Num seasonalFactor)) randomFactor),
             i3)
     }"

definition generateRandomOutflow ::
  "(nat \<Rightarrow> real) \<Rightarrow> nat \<Rightarrow> nat \<Rightarrow> BaseParameters \<Rightarrow> ScenarioType \<Rightarrow> (number \<times> nat) option" where
  "generateRandomOutflow rs i m baseParams sc =
     do {
       let scenarioMultiplier = outflowMultiplier sc;
       let outflowGrowthRate = js_mul (mean (growthRate baseParams)) (Num 0.7);
       (g, i1) \<leftarrow> randomNormal rs i outflowGrowthRate (std (growthRate baseParams));
       let growthFactor = Math_pow (js_add (Num 1) g) m;
       let seasonalFactor = seasonalEntry (season_outflow (seasonality baseParams)) (m mod 12);
       (randomFactor, i2) \<leftarrow> randomNormal rs i1 (Num 1.0) (Num 0.08);
       (baseAmount, i3) \<leftarrow> randomNormal rs i2 (baseOutflowMean baseParams) (baseOutflowStd baseParams);
       Some (Math_max (Num 0)
               (js_mul (js_mul (js_mul (js_mul baseAmount (Num scenarioMultiplier)) growthFactor)
                          (Num seasonalFactor)) randomFactor),
             i3)
     }"

section \<open>runSingleSimulation\<close>

text \<open>
  The variables of the loop: \<open>monthlyResults\<close>, \<open>cumulativeBalance\<close>,
  \<open>minBalance\<close>, \<open>maxBalance\<close>, \<open>runwayMonths\<close>, and the position in the random
  stream.
\<close>

record LoopState =
  ls_results :: "MonthlyResult list"
  ls_balance :: number
  ls_min :: number
  ls_max :: number
  ls_runway :: "number option"
  ls_pos :: nat

text \<open>
  The body of the loop for month \<open>m\<close>. \<open>now\<close> is what \<open>new Date()\<close> returns in this
  iteration: the wall clock, not a parameter of the function.
\<close>

definition simulateMonth ::
  "JsDate \<Rightarrow> (nat \<Rightarrow> real) \<Rightarrow> BaseParameters \<Rightarrow> ScenarioType \<Rightarrow> nat \<Rightarrow> LoopState \<Rightarrow> LoopState option" where
  "simulateMonth now rs baseParams sc m st =
     do {
       let date' = setMonth now (monthIndex now + m);
       (inflow', p1) \<leftarrow> generateRandomInflow rs (ls_pos st) m baseParams sc;
       (outflow', p2) \<leftarrow> generateRandomOutflow rs p1 m baseParams sc;
       let netFlow' = js_sub inflow' outflow';
       let balance = js_add (ls_balance st) netFlow';
       Some \<lparr>ls_results = ls_results st @
                 [\<lparr>month = m, inflow = inflow', outflow = outflow', netFlow = netFlow',
                   cumulativeBalance = balance, date = date'\<rparr>],
             ls_balance = balance,
             ls_min = Math_min (ls_min st) balance,
             ls_max = Math_max (ls_max st) balance,
             ls_runway = (if js_lt balance (Num 0) \<and> ls_runway st = None
                          then Some (Num (real m - 1)) else ls_runway st),
             ls_pos = p2\<rparr>
     }"

text \<open>\<open>for (let month = ...; month <= timeHorizon; month++)\<close> over the months left.\<close>

fun simulateMonths ::
  "(nat \<Rightarrow> JsDate) \<Rightarrow> (nat \<Rightarrow> real) \<Rightarrow> BaseParameters \<Rightarrow> ScenarioType \<Rightarrow> nat list \<Rightarrow> LoopState \<Rightarrow> LoopState option" where
  "simulateMonths clock rs baseParams sc [] st = Some st"
| "simulateMonths clock rs baseParams sc (m # ms) st =
     (case simulateMonth (clock m) rs baseParams sc m st of
        None \<Rightarrow> None
      | Some st' \<Rightarrow> simulateMonths clock rs baseParams sc ms st')"

text \<open>The months \<open>1, 2, ...\<close> up to \<open>timeHorizon\<close>, which need not be an integer.\<close>

definition monthsUpTo :: "real \<Rightarrow> nat list" where
  "monthsUpTo horizon = [1 ..< Suc (nat \<lfloor>horizon\<rfloor>)]"

text \<open>
  The runway of a run that never went negative: the last balance over the average
  burn of the months with a negative net flow, when there is one.
\<close>

definition averageBurn :: "MonthlyResult list \<Rightarrow> number" where
  "averageBurn results =
     (let burns = filter (\<lambda>r. js_lt (netFlow r) (Num 0)) results
      in js_or (js_div (foldl (\<lambda>sum r. js_add sum (Math_abs (netFlow r))) (Num 0) burns)
                       (Num (real (length burns))))
               (Num 0))"

text \<open>
  Reading \<open>monthlyResults[monthlyResults.length - 1].cumulativeBalance\<close> on an empty
  array throws, which is \<open>None\<close> here.
\<close>

definition finalRunway :: "MonthlyResult list \<Rightarrow> number option \<Rightarrow> number option option" where
  "finalRunway results runway =
     (if runway = None then
        (let avgBurn = averageBurn results
         in if js_lt (Num 0) avgBurn then
              (case results of
                 [] \<Rightarrow> None
               | _ \<Rightarrow> Some (Some (Math_floor (js_div (cumulativeBalance (last results)) avgBurn))))
            else Some runway)
      else Some runway)"

text \<open>
  \<open>clock m\<close> is the reading of the wall clock in the iteration of month \<open>m\<close>,
  \<open>rs\<close> the random stream and \<open>pos\<close> the position it is read from.
\<close>

definition runSingleSimulation ::
  "(nat \<Rightarrow> JsDate) \<Rightarrow> (nat \<Rightarrow> real) \<Rightarrow> nat \<Rightarrow> nat \<Rightarrow> BaseParameters \<Rightarrow> real SimulationParameters
     \<Rightarrow> SimulationRun option" where
  "runSingleSimulation clock rs pos runNumber' baseParams params =
     do {
       let start = startingBalance baseParams;
       st \<leftarrow> simulateMonths clock rs baseParams (scenario params) (monthsUpTo (timeHorizon params))
               \<lparr>ls_results = [], ls_balance = start, ls_min = start, ls_max = start,
                ls_runway = None, ls_pos = pos\<rparr>;
       runway \<leftarrow> finalRunway (ls_results st) (ls_runway st);
       Some \<lparr>runNumber = runNumber', monthlyResults = ls_results st,
             finalBalance = ls_balance st, minBalance = ls_min st, maxBalance = ls_max st,
             probabilityNegative = (if js_lt (ls_min st) (Num 0) then 1 else 0),
             runwayMonths = runway\<rparr>
     }"

section \<open>calculateBaseParameters\<close>

text \<open>
  \<open>params.customVariables?.field\<close>, and the mean and the (population) standard
  deviation that the function computes in line for the inflows and for the outflows.
\<close>

definition customVariable :: "real SimulationParameters \<Rightarrow> (CustomVariables \<Rightarrow> number option) \<Rightarrow> number option" where
  "customVariable params field = (case customVariables params of None \<Rightarrow> None | Some cv \<Rightarrow> field cv)"

definition arrayMean :: "number list \<Rightarrow> number" where
  "arrayMean xs = js_div (foldl (\<lambda>sum val. js_add sum val) (Num 0) xs) (Num (real (length xs)))"

definition arrayStd :: "number list \<Rightarrow> number \<Rightarrow> number" where
  "arrayStd xs m =
     Math_sqrt (js_div (foldl (\<lambda>sum val. js_add sum (Math_pow (js_sub val m) 2)) (Num 0) xs)
                       (Num (real (length xs))))"

definition seasonalityTable :: Seasonality where
  "seasonalityTable =
     \<lparr>season_inflow = [0.9, 0.95, 1.1, 1.0, 0.95, 0.85, 0.8, 0.85, 1.0, 1.15, 1.3, 1.2],
      season_outflow = [1.0, 1.0, 1.05, 1.0, 0.95, 0.9, 0.85, 0.9, 1.0, 1.1, 1.15, 1.1]\<rparr>"

definition calculateBaseParameters :: "HistoricalData \<Rightarrow> real SimulationParameters \<Rightarrow> BaseParameters" where
  "calculateBaseParameters historicalData params =
     (let baseInflowMean' = arrayMean (inflows historicalData);
          baseInflowStd' = arrayStd (inflows historicalData) baseInflowMean';
          baseOutflowMean' = arrayMean (outflows historicalData);
          baseOutflowStd' = arrayStd (outflows historicalData) baseOutflowMean';
          growthRateMean = js_or_undef (customVariable params cv_growthRateMean) (Num 0.05);
          growthRateStd = js_or_undef (customVariable params cv_growthRateStd) (Num 0.02)
      in \<lparr>baseInflowMean = js_or_undef (customVariable params cv_baseInflowMean) baseInflowMean',
          baseInflowStd = js_or_undef (customVariable params cv_baseInflowStd) baseInflowStd',
          baseOutflowMean = js_or_undef (customVariable params cv_baseOutflowMean) baseOutflowMean',
          baseOutflowStd = js_or_undef (customVariable params cv_baseOutflowStd) baseOutflowStd',
          growthRate = \<lparr>mean = growthRateMean, std = growthRateStd\<rparr>,
          seasonality = seasonalityTable,
          startingBalance = Num 500000\<rparr>)"

section \<open>calculateStatistics\<close>

fun numberValue :: "number \<Rightarrow> real" where
  "numberValue (Num a) = a"
| "numberValue NaN = 0"

text \<open>
  \<open>array.sort((a, b) => a - b)\<close>: ascending when every element is a number. With a
  \<open>NaN\<close> in the array the comparator is not a consistent ordering and the order of the
  result is left to the JavaScript engine; the result is still a permutation of the
  array. \<open>engineOrder\<close> stands for the choice of the engine, and is not followed where
  it does not permute the array.
\<close>

definition sortAscending :: "(number list \<Rightarrow> number list) \<Rightarrow> number list \<Rightarrow> number list" where
  "sortAscending engineOrder xs =
     (if NaN \<in> set xs then (if mset (engineOrder xs) = mset xs then engineOrder xs else xs)
      else sort_key numberValue xs)"

definition calculateStatistics ::
  "(number list \<Rightarrow> number list) \<Rightarrow> SimulationRun list \<Rightarrow> Statistics" where
  "calculateStatistics engineOrder runs' =
     (let finalBalances = sortAscending engineOrder (map finalBalance runs');
          runways = List.map_filter runwayMonths runs';
          n = real (length finalBalances)
      in \<lparr>meanFinalBalance = js_div (foldl (\<lambda>sum val. js_add sum val) (Num 0) finalBalances) (Num n),
          medianFinalBalance = js_index finalBalances (nat \<lfloor>n / 2\<rfloor>),
          percentile5 = js_index finalBalances (nat \<lfloor>n * 0.05\<rfloor>),
          percentile95 = js_index finalBalances (nat \<lfloor>n * 0.95\<rfloor>),
          stat_probabilityNegative =
            js_div (Num (real (length (filter (\<lambda>r. js_lt (minBalance r) (Num 0)) runs'))))
                   (Num (real (length runs'))),
          averageRunway =
            (if length runways > 0
             then js_div (foldl (\<lambda>sum val. js_add sum val) (Num 0) runways) (Num (real (length runways)))
             else Num 0),
          worstCaseRunway = (case runways of [] \<Rightarrow> Num 0 | r # rs \<Rightarrow> fold Math_min rs r),
          bestCaseRunway = (case runways of [] \<Rightarrow> Num 0 | r # rs \<Rightarrow> fold Math_max rs r)\<rparr>)"

definition performSensitivityAnalysis ::
  "SimulationRun list \<Rightarrow> BaseParameters \<Rightarrow> real SimulationParameters \<Rightarrow> SensitivityAnalysis" where
  "performSensitivityAnalysis runs' baseParams params =
     \<lparr>inflowImpact = 0.8, outflowImpact = - 0.7, growthImpact = 0.9, seasonalityImpact = 0.3\<rparr>"

section \<open>The simulation request handler\<close>

text \<open>
  The handler reads \<open>numRuns\<close> and \<open>timeHorizon\<close> of the parsed JSON body without a
  check of their types, so each of them is any JSON value. It reads two things of such
  a value: its truthiness, in \<open>||\<close>, and the number that \<open><\<close> and \<open>>\<close> convert it to
  before they compare (\<open>ToNumber\<close> after \<open>ToPrimitive\<close>).

  A number of the body is finite, or infinite for a literal beyond the doubles such as
  \<open>1e999\<close>. A string comes with the number that the language reads it as: \<open>NaN\<close> for a
  string that is no numeric literal, as \<open>"abc"\<close>, and 150 for \<open>"150"\<close>. An array or an
  object comes with the outcome of its conversion: the number that the string it prints
  as is read as (\<open>NaN\<close> for the object \<open>{}\<close>, 150 for the array \<open>[150]\<close>), or \<open>None\<close>
  where the conversion raises a \<open>TypeError\<close> (as for an object with a property \<open>toString\<close>
  of its own, which is no function in a parsed body).
\<close>

datatype JsNumber = NotANumber | Finite real | PlusInfinity | MinusInfinity

datatype JsonValue =
  JNull
| JBool bool
| JNumber JsNumber
| JString string JsNumber
| JComposite "JsNumber option"

text \<open>Truthiness: \<open>null\<close>, \<open>false\<close>, 0, \<open>NaN\<close> and the empty string are falsy.\<close>

fun ToBoolean :: "JsonValue \<Rightarrow> bool" where
  "ToBoolean JNull = False"
| "ToBoolean (JBool b) = b"
| "ToBoolean (JNumber n) = (n \<noteq> Finite 0 \<and> n \<noteq> NotANumber)"
| "ToBoolean (JString s n) = (s \<noteq> [])"
| "ToBoolean (JComposite c) = True"

text \<open>The number that a comparison with a number converts a value to; \<open>None\<close> when it raises.\<close>

fun ToNumber :: "JsonValue \<Rightarrow> JsNumber option" where
  "ToNumber JNull = Some (Finite 0)"
| "ToNumber (JBool b) = Some (Finite (if b then 1 else 0))"
| "ToNumber (JNumber n) = Some n"
| "ToNumber (JString s n) = Some n"
| "ToNumber (JComposite c) = c"

text \<open>\<open>x < y\<close> on numbers: false when either is \<open>NaN\<close>.\<close>

fun lessThan :: "JsNumber \<Rightarrow> JsNumber \<Rightarrow> bool" where
  "lessThan (Finite x) (Finite y) = (x < y)"
| "lessThan (Finite x) PlusInfinity = True"
| "lessThan MinusInfinity (Finite y) = True"
| "lessThan MinusInfinity PlusInfinity = True"
| "lessThan x y = False"

text \<open>
  The parsed JSON body of the request; a field that the body does not have is \<open>None\<close>
  (\<open>undefined\<close>). The handler passes \<open>scenario\<close>, \<open>segmentId\<close> and \<open>customVariables\<close> on
  without reading more of them than their truthiness; they have the types that
  \<open>SimulationParameters\<close> declares for them.
\<close>

record RequestBody =
  body_numRuns :: "JsonValue option"
  body_timeHorizon :: "JsonValue option"
  body_scenario :: "ScenarioType option"
  body_segmentId :: "string option"
  body_customVariables :: "CustomVariables option"

datatype JsonBody =
  Failure string
| Success string "JsonValue SimulationParameters" Statistics SensitivityAnalysis "SimulationRun list" nat

record NextResponse =
  status :: nat
  json :: JsonBody

text \<open>\<open>x || d\<close> on a field of the body, \<open>d\<close> a number.\<close>

definition orDefault :: "JsonValue option \<Rightarrow> real \<Rightarrow> JsonValue" where
  "orDefault x d =
     (case x of None \<Rightarrow> JNumber (Finite d) | Some v \<Rightarrow> if ToBoolean v then v else JNumber (Finite d))"

definition emptyCustomVariables :: CustomVariables where
  "emptyCustomVariables =
     \<lparr>cv_baseInflowMean = None, cv_baseInflowStd = None, cv_baseOutflowMean = None,
      cv_baseOutflowStd = None, cv_growthRateMean = None, cv_growthRateStd = None,
      cv_seasonalityVariance = None\<rparr>"

definition requestParameters :: "RequestBody \<Rightarrow> JsonValue SimulationParameters" where
  "requestParameters body =
     \<lparr>numRuns = orDefault (body_numRuns body) 500,
      timeHorizon = orDefault (body_timeHorizon body) 12,
      scenario = (case body_scenario body of None \<Rightarrow> BASE | Some s \<Rightarrow> s),
      segmentId = body_segmentId body,
      customVariables =
        Some (case body_customVariables body of None \<Rightarrow> emptyCustomVariables | Some cv \<Rightarrow> cv)\<rparr>"

text \<open>
  \<open>POST\<close>. \<open>engine\<close> is \<open>MonteCarloEngine.runSimulation\<close>, with \<open>None\<close> for a call
  that throws; a request whose body does not parse, or is \<open>null\<close>, is \<open>None\<close>. The result
  is the response with the list of the parameters the engine was called with, in order.
  A response built without a status has status 200: that is the response of the
  \<open>catch\<close> block, which also receives the \<open>TypeError\<close> of a comparison.
\<close>

definition POST ::
  "(JsonValue SimulationParameters \<Rightarrow> JsonValue SimulationSummary option) \<Rightarrow> RequestBody option
     \<Rightarrow> NextResponse \<times> JsonValue SimulationParameters list" where
  "POST engine request =
     (case request of
        None \<Rightarrow> (\<lparr>status = 200, json = Failure ''Failed to run Monte Carlo simulation''\<rparr>, [])
      | Some body \<Rightarrow>
          (let params = requestParameters body
           in case ToNumber (numRuns params) of
                None \<Rightarrow> (\<lparr>status = 200, json = Failure ''Failed to run Monte Carlo simulation''\<rparr>, [])
              | Some n \<Rightarrow>
                  if lessThan n (Finite 100) \<or> lessThan (Finite 2000) n then
                    (\<lparr>status = 400, json = Failure ''Number of runs must be between 100 and 2000''\<rparr>, [])
                  else
                    (case ToNumber (timeHorizon params) of
                       None \<Rightarrow> (\<lparr>status = 200, json = Failure ''Failed to run Monte Carlo simulation''\<rparr>, [])
                     | Some t \<Rightarrow>
                         if lessThan t (Finite 1) \<or> lessThan (Finite 36) t then
                           (\<lparr>status = 400, json = Failure ''Time horizon must be between 1 and 36 months''\<rparr>, [])
                         else
                           (case engine params of
                              None \<Rightarrow>
                                (\<lparr>status = 200, json = Failure ''Failed to run Monte Carlo simulation''\<rparr>,
                                 [params])
                            | Some res \<Rightarrow>
                                (\<lparr>status = 200,
                                  json = Success (simulationId res) (parameters res) (statistics res)
                                           (sensitivityAnalysis res) (take 10 (runs res))
                                           (length (runs res))\<rparr>,
                                 [params])))))"

section \<open>Forecasting\<close>

text \<open>
  The forecasts are computed from amounts that are numbers and a table without gaps, and
  no division of these functions has a divisor that can be zero, so no \<open>NaN\<close> arises
  and the numbers are reals. A horizon that is \<open>NaN\<close> gives no forecast, as a horizon
  below 1 does.
\<close>

datatype TransactionType = INFLOW | OUTFLOW

datatype ForecastModel = PROPHET | ARIMA | REGRESSION | LSTM | ENSEMBLE

record CashTransaction =
  transactionDate :: JsDate
  amount :: real
  transactionType :: TransactionType

record ForecastResult =
  fr_date :: JsDate
  predicted :: real
  confidence :: real
  lowerBound :: real
  upperBound :: real
  fr_model :: ForecastModel
  fr_scenario :: ScenarioType

record ForecastParameters =
  horizon :: real
  fp_model :: ForecastModel
  fp_scenario :: ScenarioType
  fp_segmentId :: "string option"

text \<open>
  What one call of \<open>generateRegressionForecast\<close> reads from outside: the wall clock and
  the transactions that the query returns, in its order.
\<close>

record World =
  now :: JsDate
  findMany :: "CashTransaction list"

record Trend =
  slope :: real
  intercept :: real

definition Math_round :: "real \<Rightarrow> real" where
  "Math_round x = of_int \<lfloor>x + 1 / 2\<rfloor>"

text \<open>
  The map from month keys to net flows keeps the keys in the order of their first
  insertion; the key \<open>year-month\<close> is the pair of the two.
\<close>

definition groupTransactionsByMonth :: "CashTransaction list \<Rightarrow> real list" where
  "groupTransactionsByMonth ts =
     map snd
       (foldl (\<lambda>monthlyNetFlow t.
                 let monthKey = (fullYear (transactionDate t), monthIndex (transactionDate t) + 1);
                     current = (case map_of monthlyNetFlow monthKey of None \<Rightarrow> 0 | Some v \<Rightarrow> v)
                 in AList.update monthKey
                      (if transactionType t = INFLOW then current + amount t else current - amount t)
                      monthlyNetFlow)
              [] ts)"

definition calculateLinearTrend :: "real list \<Rightarrow> Trend" where
  "calculateLinearTrend data =
     (let n = real (length data)
      in if length data < 2 then
           \<lparr>slope = 0, intercept = (case data of [] \<Rightarrow> 0 | y # _ \<Rightarrow> if y = 0 then 0 else y)\<rparr>
         else
           (let sumX = (n * (n + 1)) / 2;
                sumY = foldl (\<lambda>sum y. sum + y) 0 data;
                sumXY = foldl (\<lambda>sum (i, y). sum + (real i + 1) * y) 0 (enumerate 0 data);
                sumXX = (n * (n + 1) * (2 * n + 1)) / 6;
                slope' = (n * sumXY - sumX * sumY) / (n * sumXX - sumX * sumX);
                intercept' = (sumY - slope' * sumX) / n
            in \<lparr>slope = slope', intercept = intercept'\<rparr>))"

definition calculateVariance :: "real list \<Rightarrow> real" where
  "calculateVariance data =
     (if length data < 2 then 0
      else (let mean' = foldl (\<lambda>sum val. sum + val) 0 data / real (length data)
            in foldl (\<lambda>sum val. sum + (val - mean') ^ 2) 0 data / (real (length data) - 1)))"

definition getSeasonalFactor :: "nat \<Rightarrow> real" where
  "getSeasonalFactor m =
     seasonalEntry [0.9, 0.95, 1.1, 1.0, 0.95, 0.85, 0.8, 0.85, 1.0, 1.15, 1.3, 1.2] m"

definition forecastMultiplier :: "ScenarioType \<Rightarrow> real" where
  "forecastMultiplier s =
     (case s of OPTIMISTIC \<Rightarrow> 1.15 | BASE \<Rightarrow> 1.0 | PESSIMISTIC \<Rightarrow> 0.85 | STRESS_TEST \<Rightarrow> 0.7)"

text \<open>The forecast of step \<open>i\<close>: the body of the loop.\<close>

definition regressionStep ::
  "JsDate \<Rightarrow> real list \<Rightarrow> Trend \<Rightarrow> real \<Rightarrow> ScenarioType \<Rightarrow> nat \<Rightarrow> ForecastResult" where
  "regressionStep endDate monthlyData trend multiplier sc i =
     (let forecastDate = firstOfMonth (fullYear endDate) (monthIndex endDate + i);
          basePrediction = slope trend * (real (length monthlyData) + real i) + intercept trend;
          predicted' = basePrediction * multiplier;
          seasonalFactor = getSeasonalFactor (monthIndex forecastDate);
          seasonalPredicted = predicted' * seasonalFactor;
          variance = calculateVariance monthlyData;
          confidence' = max 0.6 (1.0 - real i * 0.05);
          bounds = sqrt variance * 1.96 * confidence'
      in \<lparr>fr_date = forecastDate,
          predicted = Math_round seasonalPredicted,
          confidence = confidence',
          lowerBound = Math_round (seasonalPredicted - bounds),
          upperBound = Math_round (seasonalPredicted + bounds),
          fr_model = REGRESSION,
          fr_scenario = sc\<rparr>)"

definition generateRegressionForecast :: "World \<Rightarrow> ForecastParameters \<Rightarrow> ForecastResult list" where
  "generateRegressionForecast w params =
     (let endDate = now w;
          monthlyData = groupTransactionsByMonth (findMany w);
          trend = calculateLinearTrend monthlyData;
          multiplier = forecastMultiplier (fp_scenario params)
      in map (regressionStep endDate monthlyData trend multiplier (fp_scenario params))
             (monthsUpTo (horizon params)))"

definition generateARIMAForecast :: "World \<Rightarrow> ForecastParameters \<Rightarrow> ForecastResult list" where
  "generateARIMAForecast w params =
     (let regressionResults = generateRegressionForecast w (params\<lparr>fp_model := ARIMA\<rparr>)
      in map (\<lambda>(i, result).
                result\<lparr>predicted := predicted result * (1 + 0.1 * sin (real i / 3)),
                       fr_model := ARIMA\<rparr>)
             (enumerate 0 regressionResults))"

definition generateProphetForecast :: "World \<Rightarrow> ForecastParameters \<Rightarrow> ForecastResult list" where
  "generateProphetForecast w params =
     (let baseForecasts = generateRegressionForecast w (params\<lparr>fp_model := PROPHET\<rparr>)
      in map (\<lambda>(i, result).
                let weeklyPattern = 0.05 * sin ((real i * 2 * pi) / 4);
                    monthlyPattern = getSeasonalFactor (monthIndex (fr_date result)) - 1;
                    enhancedPrediction = predicted result * (1 + weeklyPattern + monthlyPattern * 0.2)
                in result\<lparr>predicted := Math_round enhancedPrediction,
                          fr_model := PROPHET,
                          confidence := min (confidence result * 1.1) 0.95\<rparr>)
             (enumerate 0 baseForecasts))"

text \<open>
  The combination of step \<open>i\<close> of the three forecasts, and the ensemble: the three
  generators run on their own reading of the clock and of the database.
\<close>

definition ensembleStep ::
  "ScenarioType \<Rightarrow> ForecastResult list \<Rightarrow> ForecastResult list \<Rightarrow> ForecastResult list \<Rightarrow> nat
     \<Rightarrow> ForecastResult" where
  "ensembleStep sc regression arima prophet i =
     (let combined = predicted (regression ! i) * 0.3 + predicted (arima ! i) * 0.3
                       + predicted (prophet ! i) * 0.4;
          avgConfidence = (confidence (regression ! i) + confidence (arima ! i)
                             + confidence (prophet ! i)) / 3;
          predictions = [predicted (regression ! i), predicted (arima ! i), predicted (prophet ! i)];
          variance = foldl (\<lambda>sum p. sum + (p - combined) ^ 2) 0 predictions / 3;
          bounds = sqrt variance * 1.5
      in \<lparr>fr_date = fr_date (regression ! i),
          predicted = Math_round combined,
          confidence = avgConfidence,
          lowerBound = Math_round (combined - bounds),
          upperBound = Math_round (combined + bounds),
          fr_model = ENSEMBLE,
          fr_scenario = sc\<rparr>)"

definition generateEnsembleForecast ::
  "World \<Rightarrow> World \<Rightarrow> World \<Rightarrow> ForecastParameters \<Rightarrow> ForecastResult list" where
  "generateEnsembleForecast wr wa wp params =
     (let regression = generateRegressionForecast wr (params\<lparr>fp_model := REGRESSION\<rparr>);
          arima = generateARIMAForecast wa (params\<lparr>fp_model := ARIMA\<rparr>);
          prophet = generateProphetForecast wp (params\<lparr>fp_model := PROPHET\<rparr>)
      in map (ensembleStep (fp_scenario params) regression arima prophet) [0 ..< length regression])"

section \<open>Notions of the statements\<close>

text \<open>
  The balances of a run by month: the starting balance for month 0, then the cumulative
  balance of every monthly record.
\<close>

definition balances :: "number \<Rightarrow> SimulationRun \<Rightarrow> number list" where
  "balances start r = start # map cumulativeBalance (monthlyResults r)"

text \<open>A monthly record, and a run, without the dates.\<close>

definition undated :: "MonthlyResult \<Rightarrow> nat \<times> number \<times> number \<times> number \<times> number" where
  "undated r = (month r, inflow r, outflow r, netFlow r, cumulativeBalance r)"

definition withoutDates ::
  "SimulationRun \<Rightarrow> nat \<times> (nat \<times> number \<times> number \<times> number \<times> number) list \<times> number \<times> number \<times> number \<times> real \<times> number option" where
  "withoutDates r =
     (runNumber r, map undated (monthlyResults r), finalBalance r, minBalance r, maxBalance r,
      probabilityNegative r, runwayMonths r)"



text \<open>The number \<open>x\<close> as a field of the body.\<close>

definition jsonNumber :: "real \<Rightarrow> JsonValue option" where
  "jsonNumber x = Some (JNumber (Finite x))"

text \<open>
  What the validation finds in a parameter \<open>x\<close> of the handler: \<open>outside lo hi x\<close> when \<open>x\<close>
  converts to a number below \<open>lo\<close> or above \<open>hi\<close>, \<open>passes lo hi x\<close> when it converts to a
  number that is neither (as \<open>NaN\<close> is), \<open>raises x\<close> when the conversion raises. A field
  of the body is \<open>falsy\<close> when it is missing or falsy.
\<close>

definition outside :: "real \<Rightarrow> real \<Rightarrow> JsonValue \<Rightarrow> bool" where
  "outside lo hi x =
     (case ToNumber x of None \<Rightarrow> False | Some v \<Rightarrow> lessThan v (Finite lo) \<or> lessThan (Finite hi) v)"

definition passes :: "real \<Rightarrow> real \<Rightarrow> JsonValue \<Rightarrow> bool" where
  "passes lo hi x =
     (case ToNumber x of None \<Rightarrow> False
      | Some v \<Rightarrow> \<not> lessThan v (Finite lo) \<and> \<not> lessThan (Finite hi) v)"

definition raises :: "JsonValue \<Rightarrow> bool" where
  "raises x = (ToNumber x = None)"


text \<open>Inputs of the examples.\<close>

definition exampleHistory :: HistoricalData where
  "exampleHistory = \<lparr>inflows = [Num 100, Num 300], outflows = [Num 50, Num 150]\<rparr>"

definition exampleParameters :: "real \<Rightarrow> CustomVariables option \<Rightarrow> real SimulationParameters" where
  "exampleParameters t cv =
     \<lparr>numRuns = 500, timeHorizon = t, scenario = BASE, segmentId = None, customVariables = cv\<rparr>"

definition exampleWorld :: World where
  "exampleWorld =
     \<lparr>now = \<lparr>fullYear = 2024, monthIndex = 9, dayOfMonth = 15, msOfDay = 0\<rparr>,
      findMany = [\<lparr>transactionDate = \<lparr>fullYear = 2024, monthIndex = 8, dayOfMonth = 1, msOfDay = 0\<rparr>,
                   amount = 100, transactionType = INFLOW\<rparr>]\<rparr>"

definition exampleForecast :: "real \<Rightarrow> ForecastParameters" where
  "exampleForecast h = \<lparr>horizon = h, fp_model = ENSEMBLE, fp_scenario = BASE, fp_segmentId = None\<rparr>"

definition exampleRandoms :: "nat \<Rightarrow> real" where
  "exampleRandoms i = 1 / 4"

definition exampleClock :: "int \<Rightarrow> nat \<Rightarrow> JsDate" where
  "exampleClock y m = \<lparr>fullYear = y, monthIndex = 9, dayOfMonth = 15, msOfDay = 0\<rparr>"

definition exampleOverrides :: CustomVariables where
  "exampleOverrides = emptyCustomVariables\<lparr>cv_baseInflowMean := Some (Num 100000),
      cv_baseOutflowMean := Some (Num 400000)\<rparr>"

definition emptyHistory :: HistoricalData where
  "emptyHistory = \<lparr>inflows = [], outflows = []\<rparr>"

text \<open>
  The base parameters of \<open>exampleHistory\<close> with \<open>exampleOverrides\<close>, and the states
  of the loop of the example run, whose clock shows the 15th of October of year \<open>y\<close>.
\<close>

definition exampleBase :: BaseParameters where
  "exampleBase = \<lparr>baseInflowMean = Num 100000, baseInflowStd = Num 100, baseOutflowMean = Num 400000,
      baseOutflowStd = Num 50, growthRate = \<lparr>mean = Num 0.05, std = Num 0.02\<rparr>,
      seasonality = seasonalityTable, startingBalance = Num 500000\<rparr>"

definition exampleInit :: LoopState where
  "exampleInit = \<lparr>ls_results = [], ls_balance = Num 500000, ls_min = Num 500000, ls_max = Num 500000,
        ls_runway = None, ls_pos = 0\<rparr>"

definition exampleMonth1 :: "int \<Rightarrow> MonthlyResult" where
  "exampleMonth1 y =
     \<lparr>month = 1, inflow = Num 99750, outflow = Num 414000, netFlow = Num (- 314250),
      cumulativeBalance = Num 185750,
      date = \<lparr>fullYear = y, monthIndex = 10, dayOfMonth = 15, msOfDay = 0\<rparr>\<rparr>"

definition exampleMonth2 :: "int \<Rightarrow> MonthlyResult" where
  "exampleMonth2 y =
     \<lparr>month = 2, inflow = Num 121275, outflow = Num 449914.5, netFlow = Num (- 328639.5),
      cumulativeBalance = Num (- 142889.5),
      date = \<lparr>fullYear = y, monthIndex = 11, dayOfMonth = 15, msOfDay = 0\<rparr>\<rparr>"

definition exampleState1 :: "int \<Rightarrow> LoopState" where
  "exampleState1 y = \<lparr>ls_results = [exampleMonth1 y],
      ls_balance = Num 185750, ls_min = Num 185750, ls_max = Num 500000,
      ls_runway = None, ls_pos = 12\<rparr>"

definition exampleState2 :: "int \<Rightarrow> LoopState" where
  "exampleState2 y = \<lparr>ls_results = [exampleMonth1 y, exampleMonth2 y],
      ls_balance = Num (- 142889.5), ls_min = Num (- 142889.5), ls_max = Num 500000,
      ls_runway = Some (Num 1), ls_pos = 24\<rparr>"

definition exampleRun :: "int \<Rightarrow> SimulationRun" where
  "exampleRun y = \<lparr>runNumber = 7, monthlyResults = [exampleMonth1 y, exampleMonth2 y],
      finalBalance = Num (- 142889.5), minBalance = Num (- 142889.5), maxBalance = Num 500000,
      probabilityNegative = 1, runwayMonths = Some (Num 1)\<rparr>"

text \<open>
  A second run, which recovers: the random stream is \<open>1/4\<close> but for one normal
  deviate, drawn from \<open>u = exp (- 1/2)\<close> and \<open>v = 1/2\<close>, which is its mean minus its
  standard deviation; it is the base amount of the outflow of month 2.
\<close>

definition recoveryRandoms :: "nat \<Rightarrow> real" where
  "recoveryRandoms i = (if i = 22 then exp (- 1 / 2) else if i = 23 then 1 / 2 else 1 / 4)"

definition recoveryOverrides :: CustomVariables where
  "recoveryOverrides = emptyCustomVariables\<lparr>cv_baseInflowMean := Some (Num 400000),
      cv_baseOutflowMean := Some (Num 1000000), cv_baseOutflowStd := Some (Num 900000)\<rparr>"

definition recoveryBase :: BaseParameters where
  "recoveryBase = \<lparr>baseInflowMean = Num 400000, baseInflowStd = Num 100, baseOutflowMean = Num 1000000,
      baseOutflowStd = Num 900000, growthRate = \<lparr>mean = Num 0.05, std = Num 0.02\<rparr>,
      seasonality = seasonalityTable, startingBalance = Num 500000\<rparr>"

definition recoveryMonth1 :: MonthlyResult where
  "recoveryMonth1 =
     \<lparr>month = 1, inflow = Num 399000, outflow = Num 1035000, netFlow = Num (- 636000),
      cumulativeBalance = Num (- 136000),
      date = \<lparr>fullYear = 2024, monthIndex = 10, dayOfMonth = 15, msOfDay = 0\<rparr>\<rparr>"

definition recoveryMonth2 :: MonthlyResult where
  "recoveryMonth2 =
     \<lparr>month = 2, inflow = Num 485100, outflow = Num 112478.625, netFlow = Num 372621.375,
      cumulativeBalance = Num 236621.375,
      date = \<lparr>fullYear = 2024, monthIndex = 11, dayOfMonth = 15, msOfDay = 0\<rparr>\<rparr>"

definition recoveryState1 :: LoopState where
  "recoveryState1 = \<lparr>ls_results = [recoveryMonth1],
      ls_balance = Num (- 136000), ls_min = Num (- 136000), ls_max = Num 500000,
      ls_runway = Some (Num 0), ls_pos = 12\<rparr>"

definition recoveryState2 :: LoopState where
  "recoveryState2 = \<lparr>ls_results = [recoveryMonth1, recoveryMonth2],
      ls_balance = Num 236621.375, ls_min = Num (- 136000), ls_max = Num 500000,
      ls_runway = Some (Num 0), ls_pos = 24\<rparr>"

definition recoveryRun :: SimulationRun where
  "recoveryRun = \<lparr>runNumber = 7, monthlyResults = [recoveryMonth1, recoveryMonth2],
      finalBalance = Num 236621.375, minBalance = Num (- 136000), maxBalance = Num 500000,
      probabilityNegative = 1, runwayMonths = Some (Num 0)\<rparr>"

text \<open>A run record with a given final balance and minimum balance, for the statistics.\<close>

definition runWith :: "real \<Rightarrow> real \<Rightarrow> SimulationRun" where
  "runWith final lowest = \<lparr>runNumber = 1, monthlyResults = [],
      finalBalance = Num final, minBalance = Num lowest, maxBalance = Num 500000,
      probabilityNegative = (if lowest < 0 then 1 else 0), runwayMonths = None\<rparr>"


text \<open>
  A random stream on which every loop of \<open>randomNormal\<close> ends: it has a value other
  than zero after every position.
\<close>

definition lively :: "(nat \<Rightarrow> real) \<Rightarrow> bool" where
  "lively rs \<longleftrightarrow> (\<forall>i. \<exists>j \<ge> i. rs j \<noteq> 0)"

section \<open>Invariants of the simulation loop\<close>

text \<open>The balances so far: the starting balance, then the balance after every month.\<close>

definition track :: "number \<Rightarrow> LoopState \<Rightarrow> number list" where
  "track start st = start # map cumulativeBalance (ls_results st)"

text \<open>
  Unless the balance has become \<open>NaN\<close>, the running minimum and maximum bound every
  balance so far.
\<close>

definition bounded :: "number \<Rightarrow> LoopState \<Rightarrow> bool" where
  "bounded start st \<longleftrightarrow>
     ls_balance st = last (track start st) \<and>
     (ls_balance st \<noteq> NaN \<longrightarrow>
        (\<forall>b \<in> set (track start st). js_le (ls_min st) b \<and> js_le b (ls_max st)))"

text \<open>
  What \<open>runwayMonths\<close> records about the balances \<open>traj\<close> by month: nothing as long
  as no balance is negative, and then the month \<open>j\<close> before the first negative one.
\<close>

definition runwayRecorded :: "number list \<Rightarrow> number option \<Rightarrow> bool" where
  "runwayRecorded traj rw \<longleftrightarrow>
     (case rw of
        None \<Rightarrow> (\<forall>b \<in> set traj. \<not> js_lt b (Num 0))
      | Some v \<Rightarrow> (\<exists>j. v = Num (real j) \<and> Suc j < length traj
                      \<and> js_le (Num 0) (traj ! j) \<and> js_lt (traj ! Suc j) (Num 0)
                      \<and> (\<forall>i \<le> j. \<not> js_lt (traj ! i) (Num 0))))"

definition steady :: "number \<Rightarrow> LoopState \<Rightarrow> nat \<Rightarrow> bool" where
  "steady start st k \<longleftrightarrow>
     map month (ls_results st) = [1 ..< Suc k] \<and>
     ls_balance st = last (track start st) \<and>
     runwayRecorded (track start st) (ls_runway st)"

text \<open>The state of the loop without the dates of the records.\<close>

definition stateCore ::
  "LoopState \<Rightarrow> (nat \<times> number \<times> number \<times> number \<times> number) list \<times> number \<times> number \<times> number \<times> number option \<times> nat" where
  "stateCore st =
     (map undated (ls_results st), ls_balance st, ls_min st, ls_max st, ls_runway st, ls_pos st)"

section \<open>The request handler validates the parameters after the defaults\<close>



lemma orDefault_number: "x \<noteq> 0 \<Longrightarrow> orDefault (jsonNumber x) d = JNumber (Finite x)"
  by (simp add: jsonNumber_def orDefault_def)


lemma outside_number: "outside lo hi (JNumber (Finite x)) = (x < lo \<or> hi < x)"
  by (simp add: outside_def)


text \<open>The validation finds exactly one of the three in a parameter.\<close>

lemma outside_passes_raises:
  "(outside lo hi x \<or> passes lo hi x \<or> raises x)
   \<and> \<not> (outside lo hi x \<and> passes lo hi x) \<and> \<not> (outside lo hi x \<and> raises x)
   \<and> \<not> (passes lo hi x \<and> raises x)"
  by (auto simp: outside_def passes_def raises_def split: option.splits)





text \<open>The response to an accepted request carries what the engine returned.\<close>

lemma POST_accepts_json:
  assumes "passes 100 2000 (numRuns (requestParameters b))"
    and "passes 1 36 (timeHorizon (requestParameters b))"
    and "engine (requestParameters b) = Some res"
  shows "json (fst (POST engine (Some b)))
     = Success (simulationId res) (parameters res) (statistics res) (sensitivityAnalysis res)
         (take 10 (runs res)) (length (runs res))"
  using assms
  by (cases "ToNumber (numRuns (requestParameters b))"; cases "ToNumber (timeHorizon (requestParameters b))";
      cases "engine (requestParameters b)")
    (simp_all add: POST_def Let_def passes_def)






section \<open>Overrides of the base parameters\<close>

lemma js_or_undef_truthy: "\<not> js_falsy v \<Longrightarrow> js_or_undef (Some v) d = v"
  by (simp add: js_or_undef_def js_or_def)

lemma js_or_undef_None: "js_or_undef None d = d"
  by (simp add: js_or_undef_def)

text \<open>
  C8, as stated, fails: an override is applied with \<open>||\<close>, which takes a supplied zero
  for a missing value. A growth rate mean of 0 is supplied here, and the base parameters
  have the default 0.05.
\<close>

theorem C8_zero_override_ignored:
  "customVariable (exampleParameters 12 (Some (emptyCustomVariables\<lparr>cv_growthRateMean := Some (Num 0)\<rparr>)))
      cv_growthRateMean = Some (Num 0)
   \<and> mean (growthRate (calculateBaseParameters exampleHistory
        (exampleParameters 12 (Some (emptyCustomVariables\<lparr>cv_growthRateMean := Some (Num 0)\<rparr>))))) = Num 0.05
   \<and> Num 0.05 \<noteq> Num 0"
  by (simp add: calculateBaseParameters_def Let_def customVariable_def exampleParameters_def
      emptyCustomVariables_def js_or_undef_def js_or_def js_falsy_def)

text \<open>
  C8, amended: in \<open>calculateBaseParameters\<close>, every supplied override that is a number
  other than zero (and not \<open>NaN\<close>) replaces the corresponding statistic; without an
  override the mean and the standard deviation computed from the history are used, and
  the growth rate has mean 0.05 and standard deviation 0.02.
\<close>

theorem C8_overrides:
  "(\<forall>v. \<not> js_falsy v \<longrightarrow>
      (customVariable p cv_baseInflowMean = Some v \<longrightarrow> baseInflowMean (calculateBaseParameters h p) = v)
    \<and> (customVariable p cv_baseInflowStd = Some v \<longrightarrow> baseInflowStd (calculateBaseParameters h p) = v)
    \<and> (customVariable p cv_baseOutflowMean = Some v \<longrightarrow> baseOutflowMean (calculateBaseParameters h p) = v)
    \<and> (customVariable p cv_baseOutflowStd = Some v \<longrightarrow> baseOutflowStd (calculateBaseParameters h p) = v)
    \<and> (customVariable p cv_growthRateMean = Some v \<longrightarrow> mean (growthRate (calculateBaseParameters h p)) = v)
    \<and> (customVariable p cv_growthRateStd = Some v \<longrightarrow> std (growthRate (calculateBaseParameters h p)) = v))
   \<and> (customVariable p cv_growthRateMean = None \<longrightarrow> mean (growthRate (calculateBaseParameters h p)) = Num 0.05)
   \<and> (customVariable p cv_growthRateStd = None \<longrightarrow> std (growthRate (calculateBaseParameters h p)) = Num 0.02)
   \<and> (customVariable p cv_baseInflowMean = None \<longrightarrow>
        baseInflowMean (calculateBaseParameters h p) = arrayMean (inflows h))
   \<and> (customVariable p cv_baseInflowStd = None \<longrightarrow>
        baseInflowStd (calculateBaseParameters h p) = arrayStd (inflows h) (arrayMean (inflows h)))
   \<and> (customVariable p cv_baseOutflowMean = None \<longrightarrow>
        baseOutflowMean (calculateBaseParameters h p) = arrayMean (outflows h))
   \<and> (customVariable p cv_baseOutflowStd = None \<longrightarrow>
        baseOutflowStd (calculateBaseParameters h p) = arrayStd (outflows h) (arrayMean (outflows h)))"
  by (simp add: calculateBaseParameters_def Let_def js_or_undef_truthy js_or_undef_None)

theorem C8_overrides_witness:
  "\<not> js_falsy (Num 600000)
   \<and> customVariable (exampleParameters 12 (Some (emptyCustomVariables\<lparr>cv_baseInflowMean := Some (Num 600000)\<rparr>)))
        cv_baseInflowMean = Some (Num 600000)
   \<and> baseInflowMean (calculateBaseParameters exampleHistory
        (exampleParameters 12 (Some (emptyCustomVariables\<lparr>cv_baseInflowMean := Some (Num 600000)\<rparr>))))
      = Num 600000
   \<and> baseOutflowMean (calculateBaseParameters exampleHistory
        (exampleParameters 12 (Some (emptyCustomVariables\<lparr>cv_baseInflowMean := Some (Num 600000)\<rparr>))))
      = Num 100
   \<and> mean (growthRate (calculateBaseParameters exampleHistory
        (exampleParameters 12 (Some (emptyCustomVariables\<lparr>cv_baseInflowMean := Some (Num 600000)\<rparr>)))))
      = Num 0.05"
  using C8_overrides [of "exampleParameters 12 (Some (emptyCustomVariables\<lparr>cv_baseInflowMean := Some (Num 600000)\<rparr>))"
      exampleHistory]
  by (simp add: customVariable_def exampleParameters_def emptyCustomVariables_def js_falsy_def
      arrayMean_def exampleHistory_def)

section \<open>The forecasts\<close>

lemma monthsUpTo_length [simp]: "length (monthsUpTo h) = nat \<lfloor>h\<rfloor>"
  by (simp add: monthsUpTo_def del: upt_Suc)

lemma monthsUpTo_nth: "i < nat \<lfloor>h\<rfloor> \<Longrightarrow> monthsUpTo h ! i = Suc i"
  unfolding monthsUpTo_def by (simp add: nth_upt del: upt_Suc)

lemma regression_model_ignored [simp]:
  "generateRegressionForecast w (params\<lparr>fp_model := m\<rparr>) = generateRegressionForecast w params"
  by (simp add: generateRegressionForecast_def)

lemma regression_length [simp]: "length (generateRegressionForecast w params) = nat \<lfloor>horizon params\<rfloor>"
  by (simp add: generateRegressionForecast_def Let_def)

lemma arima_model_ignored [simp]:
  "generateARIMAForecast w (params\<lparr>fp_model := m\<rparr>) = generateARIMAForecast w params"
  by (simp add: generateARIMAForecast_def)

lemma prophet_model_ignored [simp]:
  "generateProphetForecast w (params\<lparr>fp_model := m\<rparr>) = generateProphetForecast w params"
  by (simp add: generateProphetForecast_def)

lemma arima_length [simp]: "length (generateARIMAForecast w params) = nat \<lfloor>horizon params\<rfloor>"
  by (simp add: generateARIMAForecast_def Let_def)

lemma prophet_length [simp]: "length (generateProphetForecast w params) = nat \<lfloor>horizon params\<rfloor>"
  by (simp add: generateProphetForecast_def Let_def)

lemma ensemble_length [simp]:
  "length (generateEnsembleForecast wr wa wp params) = nat \<lfloor>horizon params\<rfloor>"
  by (simp add: generateEnsembleForecast_def Let_def)

text \<open>
  The three arrays that the ensemble indexes have the length of the regression forecast,
  so every read \<open>arima[i]\<close> and \<open>prophet[i]\<close> is in range.
\<close>

lemma ensemble_nth:
  assumes "i < nat \<lfloor>horizon params\<rfloor>"
  shows "generateEnsembleForecast wr wa wp params ! i =
     ensembleStep (fp_scenario params) (generateRegressionForecast wr params)
       (generateARIMAForecast wa params) (generateProphetForecast wp params) i"
  using assms by (simp add: generateEnsembleForecast_def Let_def)

lemma Math_round_near: "\<bar>Math_round x - x\<bar> \<le> 1 / 2"
  unfolding Math_round_def by linarith

lemma regression_confidence:
  assumes "i < nat \<lfloor>horizon params\<rfloor>"
  shows "confidence (generateRegressionForecast w params ! i) = max 0.6 (1 - 0.05 * real (Suc i))"
  using assms
  by (simp add: generateRegressionForecast_def Let_def monthsUpTo_nth regressionStep_def algebra_simps)

text \<open>
  The divisor of the slope in \<open>calculateLinearTrend\<close>, \<open>n * sumXX - sumX * sumX\<close>, is
  positive for the lengths \<open>n \<ge> 2\<close> at which it is computed.
\<close>

lemma trend_denominator:
  assumes "2 \<le> n"
  shows "real n * ((real n * (real n + 1) * (2 * real n + 1)) / 6)
           - ((real n * (real n + 1)) / 2) * ((real n * (real n + 1)) / 2) > 0"
proof -
  have e: "real n * ((real n * (real n + 1) * (2 * real n + 1)) / 6)
           - ((real n * (real n + 1)) / 2) * ((real n * (real n + 1)) / 2)
         = (real n)\<^sup>2 * (real n + 1) * (real n - 1) / 12"
    by (simp add: power2_eq_square field_simps)
  from assms have "2 \<le> real n" by simp
  then have "0 < (real n)\<^sup>2 * (real n + 1) * (real n - 1) / 12" by simp
  with e show ?thesis by simp
qed

subsection \<open>The example: one inflow of 100, a forecast for November\<close>

lemma ex_group: "groupTransactionsByMonth (findMany exampleWorld) = [100]"
  by (simp add: groupTransactionsByMonth_def exampleWorld_def)

lemma ex_months: "monthsUpTo 1 = [1]"
  by (simp add: monthsUpTo_def)

lemma ex_trend: "calculateLinearTrend [100] = \<lparr>slope = 0, intercept = 100\<rparr>"
  by (simp add: calculateLinearTrend_def)

lemma ex_var: "calculateVariance [100] = 0"
  by (simp add: calculateVariance_def)

lemma ex_season: "getSeasonalFactor 10 = 1.3"
  by (simp add: getSeasonalFactor_def seasonalEntry_def js_index_def)

lemma ex_regression:
  "generateRegressionForecast exampleWorld (exampleForecast 1) =
     [\<lparr>fr_date = \<lparr>fullYear = 2024, monthIndex = 10, dayOfMonth = 1, msOfDay = 0\<rparr>,
       predicted = 130, confidence = 0.95, lowerBound = 130, upperBound = 130,
       fr_model = REGRESSION, fr_scenario = BASE\<rparr>]"
proof -
  have "generateRegressionForecast exampleWorld (exampleForecast 1) =
      [regressionStep (now exampleWorld) [100] \<lparr>slope = 0, intercept = 100\<rparr> 1 BASE 1]"
    by (simp add: generateRegressionForecast_def ex_group ex_months ex_trend Let_def exampleForecast_def
        forecastMultiplier_def)
  then show ?thesis
    by (simp add: regressionStep_def exampleWorld_def firstOfMonth_def ex_season ex_var Math_round_def)
qed

lemma ex_arima:
  "generateARIMAForecast exampleWorld (exampleForecast 1) =
     [\<lparr>fr_date = \<lparr>fullYear = 2024, monthIndex = 10, dayOfMonth = 1, msOfDay = 0\<rparr>,
       predicted = 130, confidence = 0.95, lowerBound = 130, upperBound = 130,
       fr_model = ARIMA, fr_scenario = BASE\<rparr>]"
  by (simp add: generateARIMAForecast_def ex_regression enumerate_eq_zip)

lemma ex_prophet:
  "generateProphetForecast exampleWorld (exampleForecast 1) =
     [\<lparr>fr_date = \<lparr>fullYear = 2024, monthIndex = 10, dayOfMonth = 1, msOfDay = 0\<rparr>,
       predicted = 138, confidence = 0.95, lowerBound = 130, upperBound = 130,
       fr_model = PROPHET, fr_scenario = BASE\<rparr>]"
  by (simp add: generateProphetForecast_def ex_regression enumerate_eq_zip ex_season Math_round_def)

subsection \<open>The ensemble\<close>

text \<open>
  C5, as stated, fails: the predicted value of the ensemble is the weighted sum rounded
  to an integer. In the example the three predictions are 130, 130 and 138, their
  weighted sum is 133.2, and the ensemble predicts 133.
\<close>

theorem C5_ensemble_is_rounded:
  "predicted (generateEnsembleForecast exampleWorld exampleWorld exampleWorld (exampleForecast 1) ! 0) = 133
   \<and> 0.3 * predicted (generateRegressionForecast exampleWorld (exampleForecast 1) ! 0)
     + 0.3 * predicted (generateARIMAForecast exampleWorld (exampleForecast 1) ! 0)
     + 0.4 * predicted (generateProphetForecast exampleWorld (exampleForecast 1) ! 0) = 133.2"
  by (simp add: generateEnsembleForecast_def ensembleStep_def ex_regression ex_arima ex_prophet Let_def
      Math_round_def)

text \<open>
  C5, amended: at every step the predicted value of the ensemble is \<open>Math.round\<close> of
  0.3 times the regression prediction plus 0.3 times the ARIMA prediction plus 0.4 times
  the Prophet prediction (so within one half of that sum; the weights sum to 1), its
  confidence is the arithmetic mean of the three confidences, and its bounds are the
  rounded values of the weighted sum minus and plus 1.5 times the root of the mean
  squared deviation of the three predictions from the weighted sum: they are derived
  from the three predictions and not from the variance of the data.
\<close>

theorem C5_ensemble_step:
  assumes "i < nat \<lfloor>horizon params\<rfloor>"
  shows "(let r = generateRegressionForecast wr params ! i;
              a = generateARIMAForecast wa params ! i;
              p = generateProphetForecast wp params ! i;
              e = generateEnsembleForecast wr wa wp params ! i;
              combined = 0.3 * predicted r + 0.3 * predicted a + 0.4 * predicted p;
              spread = sqrt (((predicted r - combined)\<^sup>2 + (predicted a - combined)\<^sup>2
                              + (predicted p - combined)\<^sup>2) / 3)
          in predicted e = Math_round combined
             \<and> \<bar>predicted e - combined\<bar> \<le> 1 / 2
             \<and> confidence e = (confidence r + confidence a + confidence p) / 3
             \<and> lowerBound e = Math_round (combined - 1.5 * spread)
             \<and> upperBound e = Math_round (combined + 1.5 * spread))
         \<and> (0.3 :: real) + 0.3 + 0.4 = 1
         \<and> length (generateEnsembleForecast wr wa wp params) = nat \<lfloor>horizon params\<rfloor>"
  using assms Math_round_near
  by (simp add: ensemble_nth ensembleStep_def Let_def algebra_simps)

theorem C5_ensemble_step_witness:
  "0 < nat \<lfloor>horizon (exampleForecast 1)\<rfloor>
   \<and> predicted (generateEnsembleForecast exampleWorld exampleWorld exampleWorld (exampleForecast 1) ! 0)
      = Math_round 133.2
   \<and> confidence (generateEnsembleForecast exampleWorld exampleWorld exampleWorld (exampleForecast 1) ! 0)
      = 0.95"
proof -
  have h: "0 < nat \<lfloor>horizon (exampleForecast 1)\<rfloor>"
    by (simp add: exampleForecast_def)
  from C5_ensemble_step [OF h, of exampleWorld exampleWorld exampleWorld] h show ?thesis
    by (simp add: Let_def ex_regression ex_arima ex_prophet)
qed

subsection \<open>The confidence of the regression forecast\<close>

text \<open>
  C6: the regression forecast has one entry for each step \<open>i\<close> from 1 to the horizon; the
  confidence of step \<open>i\<close> is \<open>max(0.6, 1.0 - 0.05 * i)\<close>, so it does not increase with
  the step and is never below 0.6.
\<close>

theorem C6_regression_confidence:
  "length (generateRegressionForecast w params) = nat \<lfloor>horizon params\<rfloor>
   \<and> (\<forall>i. 1 \<le> i \<and> i \<le> nat \<lfloor>horizon params\<rfloor> \<longrightarrow>
         confidence (generateRegressionForecast w params ! (i - 1)) = max 0.6 (1.0 - 0.05 * real i))
   \<and> (\<forall>i j. 1 \<le> i \<and> i \<le> j \<and> j \<le> nat \<lfloor>horizon params\<rfloor> \<longrightarrow>
         confidence (generateRegressionForecast w params ! (j - 1))
           \<le> confidence (generateRegressionForecast w params ! (i - 1)))
   \<and> (\<forall>f \<in> set (generateRegressionForecast w params). 0.6 \<le> confidence f)"
proof -
  let ?fs = "generateRegressionForecast w params"
  have c: "confidence (?fs ! (i - 1)) = max 0.6 (1.0 - 0.05 * real i)"
    if "1 \<le> i" "i \<le> nat \<lfloor>horizon params\<rfloor>" for i
    using that regression_confidence [of "i - 1" params w] by simp
  have m: "confidence (?fs ! (j - 1)) \<le> confidence (?fs ! (i - 1))"
    if "1 \<le> i" "i \<le> j" "j \<le> nat \<lfloor>horizon params\<rfloor>" for i j
    using that c [of i] c [of j] by simp
  have f: "0.6 \<le> confidence f" if "f \<in> set ?fs" for f
  proof -
    from that obtain k where "k < length ?fs" "f = ?fs ! k" by (auto simp: in_set_conv_nth)
    then show ?thesis using regression_confidence [of k params w] by simp
  qed
  show ?thesis using c m f by simp
qed

theorem C6_regression_confidence_witness:
  "length (generateRegressionForecast exampleWorld (exampleForecast 12)) = 12
   \<and> confidence (generateRegressionForecast exampleWorld (exampleForecast 12) ! 2) = 0.85
   \<and> confidence (generateRegressionForecast exampleWorld (exampleForecast 12) ! 9) = 0.6
   \<and> confidence (generateRegressionForecast exampleWorld (exampleForecast 12) ! 9)
      \<le> confidence (generateRegressionForecast exampleWorld (exampleForecast 12) ! 2)"
proof -
  have h: "nat \<lfloor>horizon (exampleForecast 12)\<rfloor> = 12"
    by (simp add: exampleForecast_def)
  from C6_regression_confidence [of exampleWorld "exampleForecast 12"]
  have len: "length (generateRegressionForecast exampleWorld (exampleForecast 12))
      = nat \<lfloor>horizon (exampleForecast 12)\<rfloor>"
    and q: "\<forall>i. 1 \<le> i \<and> i \<le> nat \<lfloor>horizon (exampleForecast 12)\<rfloor> \<longrightarrow>
      confidence (generateRegressionForecast exampleWorld (exampleForecast 12) ! (i - 1))
        = max 0.6 (1.0 - 0.05 * real i)"
    by blast+
  have a: "confidence (generateRegressionForecast exampleWorld (exampleForecast 12) ! 2) = 0.85"
    using q [rule_format, of 3] h by simp
  have b: "confidence (generateRegressionForecast exampleWorld (exampleForecast 12) ! 9) = 0.6"
    using q [rule_format, of 10] h by simp
  from a b len h show ?thesis by simp
qed

section \<open>The simulation loop\<close>

lemma js_add_Num: "js_add a b = Num c \<Longrightarrow> \<exists>x y. a = Num x \<and> b = Num y \<and> c = x + y"
  by (cases a; cases b) auto

lemma js_lt_Num: "js_lt a b \<Longrightarrow> \<exists>x y. a = Num x \<and> b = Num y \<and> x < y"
  by (cases a; cases b) auto

lemma js_le_Num: "js_le a b \<Longrightarrow> \<exists>x y. a = Num x \<and> b = Num y \<and> x \<le> y"
  by (cases a; cases b) auto

text \<open>What one iteration that returns has done to the variables of the loop.\<close>

lemma simulateMonth_Some:
  assumes "simulateMonth now' rs bp sc m st = Some st'"
  obtains i out where
    "ls_results st' = ls_results st @
       [\<lparr>month = m, inflow = i, outflow = out, netFlow = js_sub i out,
         cumulativeBalance = ls_balance st', date = setMonth now' (monthIndex now' + m)\<rparr>]"
    "ls_balance st' = js_add (ls_balance st) (js_sub i out)"
    "ls_min st' = Math_min (ls_min st) (ls_balance st')"
    "ls_max st' = Math_max (ls_max st) (ls_balance st')"
    "ls_runway st' = (if js_lt (ls_balance st') (Num 0) \<and> ls_runway st = None
                       then Some (Num (real m - 1)) else ls_runway st)"
  using assms unfolding simulateMonth_def Let_def
  by (auto split: Option.bind_splits prod.splits)

text \<open>What a run that returns is made of.\<close>

lemma run_Some:
  assumes "runSingleSimulation clock rs pos n bp params = Some r"
  obtains st where
    "simulateMonths clock rs bp (scenario params) (monthsUpTo (timeHorizon params))
       \<lparr>ls_results = [], ls_balance = startingBalance bp, ls_min = startingBalance bp,
        ls_max = startingBalance bp, ls_runway = None, ls_pos = pos\<rparr> = Some st"
    "finalRunway (ls_results st) (ls_runway st) = Some (runwayMonths r)"
    "runNumber r = n" "monthlyResults r = ls_results st" "finalBalance r = ls_balance st"
    "minBalance r = ls_min st" "maxBalance r = ls_max st"
    "probabilityNegative r = (if js_lt (ls_min st) (Num 0) then 1 else 0)"
  using assms unfolding runSingleSimulation_def Let_def
  by (auto split: Option.bind_splits)

lemma last_track: "last (track start st) \<in> set (track start st)"
  by (rule last_in_set) (simp add: track_def)

subsection \<open>The minimum and the maximum bound the balances\<close>

lemma bounded_step:
  assumes inv: "bounded start st" and step: "simulateMonth now' rs bp sc m st = Some st'"
  shows "bounded start st'"
proof -
  from step obtain i out where
    res: "ls_results st' = ls_results st @
       [\<lparr>month = m, inflow = i, outflow = out, netFlow = js_sub i out,
         cumulativeBalance = ls_balance st', date = setMonth now' (monthIndex now' + m)\<rparr>]"
    and bal: "ls_balance st' = js_add (ls_balance st) (js_sub i out)"
    and mn: "ls_min st' = Math_min (ls_min st) (ls_balance st')"
    and mx: "ls_max st' = Math_max (ls_max st) (ls_balance st')"
    by (rule simulateMonth_Some)
  have tr: "track start st' = track start st @ [ls_balance st']"
    by (simp add: track_def res)
  have last: "ls_balance st' = last (track start st')"
    by (simp add: tr)
  have bnd: "js_le (ls_min st') b \<and> js_le b (ls_max st')"
    if nn: "ls_balance st' \<noteq> NaN" and b: "b \<in> set (track start st')" for b
  proof -
    from nn obtain c where c: "ls_balance st' = Num c" by (cases "ls_balance st'") auto
    with bal have "js_add (ls_balance st) (js_sub i out) = Num c" by simp
    then obtain x where x: "ls_balance st = Num x" by (auto dest: js_add_Num)
    with inv have old: "\<forall>b \<in> set (track start st). js_le (ls_min st) b \<and> js_le b (ls_max st)"
      by (simp add: bounded_def)
    from inv last_track [of start st] have "ls_balance st \<in> set (track start st)"
      by (simp add: bounded_def)
    with old x obtain lo hi where lo: "ls_min st = Num lo" and hi: "ls_max st = Num hi"
      and lohi: "lo \<le> x" "x \<le> hi"
      by (auto dest!: js_le_Num)
    have mn': "ls_min st' = Num (min lo c)" and mx': "ls_max st' = Num (max hi c)"
      by (simp_all add: mn mx lo hi c)
    from b tr consider "b \<in> set (track start st)" | "b = ls_balance st'" by auto
    then show ?thesis
    proof cases
      case 1
      with old have "js_le (Num lo) b" "js_le b (Num hi)" by (auto simp: lo hi)
      then obtain y where "b = Num y" "lo \<le> y" "y \<le> hi" by (auto dest!: js_le_Num)
      then show ?thesis by (auto simp: mn' mx')
    next
      case 2
      then show ?thesis by (simp add: mn' mx' c)
    qed
  qed
  from last bnd show ?thesis by (simp add: bounded_def)
qed

lemma bounded_loop:
  assumes "bounded start st" and "simulateMonths clock rs bp sc ms st = Some st'"
  shows "bounded start st'"
  using assms
proof (induction ms arbitrary: st)
  case Nil
  then show ?case by simp
next
  case (Cons m ms)
  then show ?case by (auto split: option.splits dest: bounded_step)
qed

lemma bounded_init:
  "bounded start \<lparr>ls_results = [], ls_balance = start, ls_min = start, ls_max = start,
                  ls_runway = None, ls_pos = pos\<rparr>"
  by (cases start) (auto simp: bounded_def track_def)

lemma run_bounded:
  assumes run: "runSingleSimulation clock rs pos n bp params = Some r"
    and nonan: "\<forall>b \<in> set (balances (startingBalance bp) r). b \<noteq> NaN"
  shows "\<forall>b \<in> set (balances (startingBalance bp) r). js_le (minBalance r) b \<and> js_le b (maxBalance r)"
proof -
  from run obtain st where
    loop: "simulateMonths clock rs bp (scenario params) (monthsUpTo (timeHorizon params))
       \<lparr>ls_results = [], ls_balance = startingBalance bp, ls_min = startingBalance bp,
        ls_max = startingBalance bp, ls_runway = None, ls_pos = pos\<rparr> = Some st"
    and r: "monthlyResults r = ls_results st" "minBalance r = ls_min st" "maxBalance r = ls_max st"
    by (rule run_Some)
  from bounded_loop [OF bounded_init loop] have inv: "bounded (startingBalance bp) st" .
  have tr: "track (startingBalance bp) st = balances (startingBalance bp) r"
    by (simp add: track_def balances_def r)
  from inv last_track [of "startingBalance bp" st]
  have "ls_balance st \<in> set (balances (startingBalance bp) r)"
    by (simp add: bounded_def tr)
  with nonan have "ls_balance st \<noteq> NaN" by blast
  with inv show ?thesis by (simp add: bounded_def tr r)
qed

subsection \<open>The runway is recorded at the first negative balance\<close>

lemma runwayRecorded_append:
  assumes "runwayRecorded traj (Some v)"
  shows "runwayRecorded (traj @ [b]) (Some v)"
proof -
  from assms obtain j where v: "v = Num (real j)" and len: "Suc j < length traj"
    and ge: "js_le (Num 0) (traj ! j)" and lt: "js_lt (traj ! Suc j) (Num 0)"
    and before: "\<forall>i \<le> j. \<not> js_lt (traj ! i) (Num 0)"
    unfolding runwayRecorded_def option.case by blast
  from len have 1: "Suc j < length (traj @ [b])" by simp
  from len ge have 2: "js_le (Num 0) ((traj @ [b]) ! j)" by (simp add: nth_append)
  from len lt have 3: "js_lt ((traj @ [b]) ! Suc j) (Num 0)" by (simp add: nth_append)
  from len before have 4: "\<forall>i \<le> j. \<not> js_lt ((traj @ [b]) ! i) (Num 0)" by (simp add: nth_append)
  from v 1 2 3 4 show ?thesis unfolding runwayRecorded_def option.case by blast
qed

lemma runwayRecorded_cross:
  assumes none: "runwayRecorded traj None" and ne: "traj \<noteq> []"
    and b: "b = js_add (last traj) d" and neg: "js_lt b (Num 0)"
  shows "runwayRecorded (traj @ [b]) (Some (Num (real (length traj) - 1)))"
proof -
  define j where "j = length traj - 1"
  from ne have len: "Suc j = length traj" by (cases traj) (auto simp: j_def)
  from neg obtain c where c: "b = Num c" "c < 0" by (auto dest!: js_lt_Num)
  with b have "js_add (last traj) d = Num c" by simp
  then obtain x where x: "last traj = Num x" by (auto dest: js_add_Num)
  from ne have lastj: "last traj = traj ! j" by (simp add: last_conv_nth j_def)
  from none ne have "\<not> js_lt (last traj) (Num 0)"
    unfolding runwayRecorded_def option.case by simp
  with x have "0 \<le> x" by simp
  with x lastj have "js_le (Num 0) (traj ! j)" by simp
  moreover from len have "j < length traj" by simp
  ultimately have 2: "js_le (Num 0) ((traj @ [b]) ! j)" by (simp add: nth_append)
  have "(traj @ [b]) ! length traj = b" by (rule nth_append_length)
  with neg have 3: "js_lt ((traj @ [b]) ! Suc j) (Num 0)" by (simp only: len)
  have 4: "\<forall>i \<le> j. \<not> js_lt ((traj @ [b]) ! i) (Num 0)"
  proof (intro allI impI)
    fix i assume "i \<le> j"
    with len have i: "i < length traj" by simp
    then have "traj ! i \<in> set traj" by simp
    with none have "\<not> js_lt (traj ! i) (Num 0)"
      unfolding runwayRecorded_def option.case by blast
    with i show "\<not> js_lt ((traj @ [b]) ! i) (Num 0)" by (simp add: nth_append)
  qed
  from len have v: "Num (real (length traj) - 1) = Num (real j)"
    by (simp add: j_def of_nat_diff)
  from len have 1: "Suc j < length (traj @ [b])" by simp
  from 1 2 3 4 show ?thesis unfolding runwayRecorded_def option.case v by blast
qed

lemma runwayRecorded_stay:
  assumes "runwayRecorded traj None" and "\<not> js_lt b (Num 0)"
  shows "runwayRecorded (traj @ [b]) None"
  using assms by (simp add: runwayRecorded_def)

lemma steady_step:
  assumes inv: "steady start st k" and step: "simulateMonth now' rs bp sc (Suc k) st = Some st'"
  shows "steady start st' (Suc k)"
proof -
  from step obtain i out where
    res: "ls_results st' = ls_results st @
       [\<lparr>month = Suc k, inflow = i, outflow = out, netFlow = js_sub i out,
         cumulativeBalance = ls_balance st', date = setMonth now' (monthIndex now' + Suc k)\<rparr>]"
    and bal: "ls_balance st' = js_add (ls_balance st) (js_sub i out)"
    and rw: "ls_runway st' = (if js_lt (ls_balance st') (Num 0) \<and> ls_runway st = None
                       then Some (Num (real (Suc k) - 1)) else ls_runway st)"
    by (rule simulateMonth_Some)
  have tr: "track start st' = track start st @ [ls_balance st']"
    by (simp add: track_def res)
  have ne: "track start st \<noteq> []" by (simp add: track_def)
  from inv have months: "map month (ls_results st) = [1 ..< Suc k]"
    and last: "ls_balance st = last (track start st)"
    and rec: "runwayRecorded (track start st) (ls_runway st)"
    by (simp_all add: steady_def)
  from months have "length (map month (ls_results st)) = k" by (simp del: upt_Suc)
  then have len: "length (track start st) = Suc k" by (simp add: track_def)
  have m': "map month (ls_results st') = [1 ..< Suc (Suc k)]"
    by (simp add: res months)
  have l': "ls_balance st' = last (track start st')" by (simp add: tr)
  have r': "runwayRecorded (track start st') (ls_runway st')"
  proof (cases "ls_runway st")
    case None
    show ?thesis
    proof (cases "js_lt (ls_balance st') (Num 0)")
      case True
      from runwayRecorded_cross [OF _ ne _ True, of "js_sub i out"] rec None bal last
      have "runwayRecorded (track start st @ [ls_balance st'])
              (Some (Num (real (length (track start st)) - 1)))"
        by simp
      then show ?thesis using True None by (simp add: tr rw len)
    next
      case False
      with rec None show ?thesis by (simp add: tr rw runwayRecorded_stay)
    qed
  next
    case (Some v)
    with rec show ?thesis by (simp add: tr rw runwayRecorded_append)
  qed
  from m' l' r' show ?thesis by (simp add: steady_def)
qed

lemma steady_loop:
  assumes "steady start st k" and "simulateMonths clock rs bp sc ms st = Some st'"
    and "ms = [Suc k ..< Suc n]"
  shows "\<exists>k'. steady start st' k'"
  using assms
proof (induction ms arbitrary: st k)
  case Nil
  then show ?case by auto
next
  case (Cons m ms)
  from Cons.prems(3) [symmetric] have m: "m = Suc k" and ms: "ms = [Suc (Suc k) ..< Suc n]"
    by (auto simp: upt_eq_Cons_conv simp del: upt_Suc)
  from Cons.prems(2) obtain st1 where s1: "simulateMonth (clock m) rs bp sc m st = Some st1"
    and rest: "simulateMonths clock rs bp sc ms st1 = Some st'"
    by (auto split: option.splits)
  from steady_step [OF Cons.prems(1)] s1 m have "steady start st1 (Suc k)" by simp
  from Cons.IH [OF this rest ms] show ?case .
qed

lemma steady_init:
  assumes "\<not> js_lt start (Num 0)"
  shows "steady start \<lparr>ls_results = [], ls_balance = start, ls_min = start, ls_max = start,
                  ls_runway = None, ls_pos = pos\<rparr> 0"
  using assms by (simp add: steady_def track_def runwayRecorded_def)

lemma finalRunway_recorded: "finalRunway results (Some v) = Some (Some v)"
  by (simp add: finalRunway_def)

lemma nth_months:
  assumes "map month rs = [1 ..< Suc k]" and "i < length rs"
  shows "month (rs ! i) = Suc i"
proof -
  from assms(1) have len: "length rs = k"
    using length_map [of month rs] by (simp del: upt_Suc)
  from assms(2) have "month (rs ! i) = map month rs ! i" by simp
  also have "\<dots> = Suc i" using assms(2) len by (simp add: assms(1) nth_upt del: upt_Suc)
  finally show ?thesis .
qed

text \<open>
  For a starting balance that is not negative: a run whose balance is negative in some
  month records the month before the first such month.
\<close>

lemma run_runway:
  assumes run: "runSingleSimulation clock rs pos n bp params = Some r"
    and start: "\<not> js_lt (startingBalance bp) (Num 0)"
    and neg: "\<exists>b \<in> set (balances (startingBalance bp) r). js_lt b (Num 0)"
  shows "(\<exists>j. runwayMonths r = Some (Num (real j))
           \<and> Suc j < length (balances (startingBalance bp) r)
           \<and> js_le (Num 0) (balances (startingBalance bp) r ! j)
           \<and> js_lt (balances (startingBalance bp) r ! Suc j) (Num 0)
           \<and> (\<forall>i \<le> j. \<not> js_lt (balances (startingBalance bp) r ! i) (Num 0)))
         \<and> (\<forall>i < length (monthlyResults r). month (monthlyResults r ! i) = Suc i)"
proof -
  from run obtain st where
    loop: "simulateMonths clock rs bp (scenario params) (monthsUpTo (timeHorizon params))
       \<lparr>ls_results = [], ls_balance = startingBalance bp, ls_min = startingBalance bp,
        ls_max = startingBalance bp, ls_runway = None, ls_pos = pos\<rparr> = Some st"
    and fin: "finalRunway (ls_results st) (ls_runway st) = Some (runwayMonths r)"
    and r: "monthlyResults r = ls_results st"
    by (rule run_Some)
  from steady_loop [OF steady_init [OF start] loop] obtain k where inv: "steady (startingBalance bp) st k"
    by (auto simp: monthsUpTo_def)
  have tr: "track (startingBalance bp) st = balances (startingBalance bp) r"
    by (simp add: track_def balances_def r)
  from inv have rec: "runwayRecorded (balances (startingBalance bp) r) (ls_runway st)"
    and months: "map month (monthlyResults r) = [1 ..< Suc k]"
    by (simp_all add: steady_def tr r)
  from neg rec obtain v where v: "ls_runway st = Some v"
    by (cases "ls_runway st") (auto simp: runwayRecorded_def)
  with fin have "runwayMonths r = Some v" by (simp add: finalRunway_recorded)
  with rec v have 1: "\<exists>j. runwayMonths r = Some (Num (real j))
           \<and> Suc j < length (balances (startingBalance bp) r)
           \<and> js_le (Num 0) (balances (startingBalance bp) r ! j)
           \<and> js_lt (balances (startingBalance bp) r ! Suc j) (Num 0)
           \<and> (\<forall>i \<le> j. \<not> js_lt (balances (startingBalance bp) r ! i) (Num 0))"
    unfolding runwayRecorded_def option.case by simp
  from months have 2: "\<forall>i < length (monthlyResults r). month (monthlyResults r ! i) = Suc i"
    by (simp add: nth_months)
  from 1 2 show ?thesis ..
qed

subsection \<open>The results do not depend on the clock, but for the dates\<close>

lemma simulateMonth_clock:
  assumes "stateCore st = stateCore st'"
  shows "map_option stateCore (simulateMonth d rs bp sc m st)
       = map_option stateCore (simulateMonth d' rs bp sc m st')"
  using assms unfolding simulateMonth_def stateCore_def Let_def
  by (auto simp: undated_def split: Option.bind_splits prod.splits)

lemma simulateMonths_clock:
  assumes "stateCore st = stateCore st'"
  shows "map_option stateCore (simulateMonths clock rs bp sc ms st)
       = map_option stateCore (simulateMonths clock' rs bp sc ms st')"
  using assms
proof (induction ms arbitrary: st st')
  case Nil
  then show ?case by simp
next
  case (Cons m ms)
  from simulateMonth_clock [OF Cons.prems, of "clock m" rs bp sc m "clock' m"]
  have step: "map_option stateCore (simulateMonth (clock m) rs bp sc m st)
       = map_option stateCore (simulateMonth (clock' m) rs bp sc m st')" .
  show ?case
  proof (cases "simulateMonth (clock m) rs bp sc m st")
    case None
    with step have "simulateMonth (clock' m) rs bp sc m st' = None" by simp
    with None show ?thesis by simp
  next
    case (Some s1)
    with step obtain s1' where s1': "simulateMonth (clock' m) rs bp sc m st' = Some s1'"
      and eq: "stateCore s1 = stateCore s1'" by (cases "simulateMonth (clock' m) rs bp sc m st'") auto
    from Cons.IH [OF eq] Some s1' show ?thesis by simp
  qed
qed

lemma undated_netFlow: "map netFlow rs = map (\<lambda>u. fst (snd (snd (snd u)))) (map undated rs)"
  by (simp add: undated_def)

lemma undated_balance: "map cumulativeBalance rs = map (\<lambda>u. snd (snd (snd (snd u)))) (map undated rs)"
  by (simp add: undated_def)

lemma averageBurn_netFlow:
  "averageBurn rs =
     (let burns = filter (\<lambda>x. js_lt x (Num 0)) (map netFlow rs)
      in js_or (js_div (foldl (\<lambda>sum x. js_add sum (Math_abs x)) (Num 0) burns)
                       (Num (real (length burns))))
               (Num 0))"
  by (simp add: averageBurn_def Let_def filter_map comp_def foldl_map)

lemma finalRunway_undated:
  assumes "map undated rs = map undated rs'"
  shows "finalRunway rs rw = finalRunway rs' rw"
proof -
  from assms have nf: "map netFlow rs = map netFlow rs'" by (simp add: undated_netFlow)
  from assms have cb: "map cumulativeBalance rs = map cumulativeBalance rs'" by (simp add: undated_balance)
  from nf have ab: "averageBurn rs = averageBurn rs'" by (simp add: averageBurn_netFlow)
  from cb have em: "rs = [] \<longleftrightarrow> rs' = []" by (metis map_is_Nil_conv)
  have la: "cumulativeBalance (last rs) = cumulativeBalance (last rs')" if "rs \<noteq> []"
  proof -
    from that em have "rs' \<noteq> []" by simp
    with that cb show ?thesis by (metis last_map)
  qed
  show ?thesis
    using ab em la by (auto simp: finalRunway_def Let_def split: list.splits)
qed

lemma run_clock:
  "map_option withoutDates (runSingleSimulation clock rs pos n bp params)
   = map_option withoutDates (runSingleSimulation clock' rs pos n bp params)"
proof -
  let ?init = "\<lparr>ls_results = [], ls_balance = startingBalance bp, ls_min = startingBalance bp,
        ls_max = startingBalance bp, ls_runway = None, ls_pos = pos\<rparr>"
  let ?loop = "\<lambda>c. simulateMonths c rs bp (scenario params) (monthsUpTo (timeHorizon params)) ?init"
  have eq: "map_option stateCore (?loop clock) = map_option stateCore (?loop clock')"
    by (rule simulateMonths_clock) simp
  show ?thesis
  proof (cases "?loop clock")
    case None
    with eq have "?loop clock' = None" by simp
    with None show ?thesis by (simp add: runSingleSimulation_def)
  next
    case (Some st)
    with eq obtain st' where st': "?loop clock' = Some st'" and core: "stateCore st = stateCore st'"
      by (cases "?loop clock'") auto
    from core have u: "map undated (ls_results st) = map undated (ls_results st')"
      and f: "ls_balance st = ls_balance st'" "ls_min st = ls_min st'" "ls_max st = ls_max st'"
         "ls_runway st = ls_runway st'"
      by (simp_all add: stateCore_def)
    from finalRunway_undated [OF u] f
    have fr: "finalRunway (ls_results st) (ls_runway st) = finalRunway (ls_results st') (ls_runway st')"
      by simp
    show ?thesis
      using Some st' u f fr
      by (cases "finalRunway (ls_results st') (ls_runway st')")
         (simp_all add: runSingleSimulation_def withoutDates_def)
  qed
qed

subsection \<open>A run returns when the random stream does not stay at zero\<close>

lemma randomNonZero_found:
  assumes "rs (i + d) \<noteq> 0" and "\<forall>k < d. rs (i + k) = 0"
  shows "randomNonZero rs i = Some (rs (i + d), Suc (i + d))"
  using assms
proof (induction d arbitrary: i)
  case 0
  then show ?case by (subst randomNonZero.simps) simp
next
  case (Suc d)
  from Suc.prems(2) have z: "rs i = 0" by (metis add.right_neutral zero_less_Suc)
  have "rs (Suc i + d) \<noteq> 0" using Suc.prems(1) by simp
  moreover have "\<forall>k < d. rs (Suc i + k) = 0"
  proof (intro allI impI)
    fix k assume "k < d"
    then have "Suc k < Suc d" by simp
    with Suc.prems(2) have "rs (i + Suc k) = 0" by blast
    then show "rs (Suc i + k) = 0" by simp
  qed
  ultimately have "randomNonZero rs (Suc i) = Some (rs (Suc i + d), Suc (Suc i + d))"
    by (rule Suc.IH)
  with z show ?case by (subst randomNonZero.simps) simp
qed

lemma randomNonZero_returns:
  assumes "lively rs"
  shows "\<exists>u j. randomNonZero rs i = Some (u, j)"
proof -
  from assms obtain j where j: "j \<ge> i" "rs j \<noteq> 0" by (auto simp: lively_def)
  define d where "d = (LEAST d. rs (i + d) \<noteq> 0)"
  from j have "rs (i + (j - i)) \<noteq> 0" by simp
  then have 1: "rs (i + d) \<noteq> 0" unfolding d_def by (rule LeastI)
  have 2: "\<forall>k < d. rs (i + k) = 0"
    unfolding d_def using not_less_Least by blast
  from randomNonZero_found [OF 1 2] show ?thesis by blast
qed

lemma randomNormal_returns:
  assumes "lively rs"
  shows "\<exists>x j. randomNormal rs i m s = Some (x, j)"
proof -
  from randomNonZero_returns [OF assms] obtain u j where 1: "randomNonZero rs i = Some (u, j)" by blast
  from randomNonZero_returns [OF assms] obtain v k where 2: "randomNonZero rs j = Some (v, k)" by blast
  from 1 2 show ?thesis by (simp add: randomNormal_def)
qed

lemma generateRandomInflow_returns:
  assumes "lively rs"
  shows "\<exists>x j. generateRandomInflow rs i m bp sc = Some (x, j)"
proof -
  from randomNormal_returns [OF assms] obtain g i1 where
    1: "randomNormal rs i (mean (growthRate bp)) (std (growthRate bp)) = Some (g, i1)" by blast
  from randomNormal_returns [OF assms] obtain f i2 where
    2: "randomNormal rs i1 (Num 1.0) (Num 0.1) = Some (f, i2)" by blast
  from randomNormal_returns [OF assms] obtain b i3 where
    3: "randomNormal rs i2 (baseInflowMean bp) (baseInflowStd bp) = Some (b, i3)" by blast
  from 1 2 3 show ?thesis by (simp add: generateRandomInflow_def Let_def)
qed

lemma generateRandomOutflow_returns:
  assumes "lively rs"
  shows "\<exists>x j. generateRandomOutflow rs i m bp sc = Some (x, j)"
proof -
  from randomNormal_returns [OF assms] obtain g i1 where
    1: "randomNormal rs i (js_mul (mean (growthRate bp)) (Num 0.7)) (std (growthRate bp)) = Some (g, i1)" by blast
  from randomNormal_returns [OF assms] obtain f i2 where
    2: "randomNormal rs i1 (Num 1.0) (Num 0.08) = Some (f, i2)" by blast
  from randomNormal_returns [OF assms] obtain b i3 where
    3: "randomNormal rs i2 (baseOutflowMean bp) (baseOutflowStd bp) = Some (b, i3)" by blast
  from 1 2 3 show ?thesis by (simp add: generateRandomOutflow_def Let_def)
qed

lemma simulateMonth_returns:
  assumes "lively rs"
  shows "\<exists>st'. simulateMonth d rs bp sc m st = Some st'"
proof -
  from generateRandomInflow_returns [OF assms] obtain x p1 where
    1: "generateRandomInflow rs (ls_pos st) m bp sc = Some (x, p1)" by blast
  from generateRandomOutflow_returns [OF assms] obtain y p2 where
    2: "generateRandomOutflow rs p1 m bp sc = Some (y, p2)" by blast
  from 1 2 show ?thesis by (simp add: simulateMonth_def Let_def)
qed

lemma simulateMonths_returns:
  assumes "lively rs"
  shows "\<exists>st'. simulateMonths clock rs bp sc ms st = Some st'"
proof (induction ms arbitrary: st)
  case Nil
  then show ?case by simp
next
  case (Cons m ms)
  from simulateMonth_returns [OF assms] obtain s1 where
    "simulateMonth (clock m) rs bp sc m st = Some s1" by blast
  with Cons.IH [of s1] show ?case by simp
qed

lemma averageBurn_positive:
  assumes "js_lt (Num 0) (averageBurn results)"
  shows "results \<noteq> []"
  using assms by (auto simp: averageBurn_def js_or_def js_falsy_def)

lemma finalRunway_returns: "\<exists>rw'. finalRunway results rw = Some rw'"
proof (cases "rw = None \<and> js_lt (Num 0) (averageBurn results)")
  case True
  then have "results \<noteq> []" by (simp add: averageBurn_positive)
  with True show ?thesis by (cases results) (simp_all add: finalRunway_def Let_def)
next
  case False
  then show ?thesis by (auto simp: finalRunway_def Let_def)
qed

lemma run_returns:
  assumes "lively rs"
  shows "\<exists>r. runSingleSimulation clock rs pos n bp params = Some r"
proof -
  from simulateMonths_returns [OF assms] obtain st where
    1: "simulateMonths clock rs bp (scenario params) (monthsUpTo (timeHorizon params))
       \<lparr>ls_results = [], ls_balance = startingBalance bp, ls_min = startingBalance bp,
        ls_max = startingBalance bp, ls_runway = None, ls_pos = pos\<rparr> = Some st" by blast
  from finalRunway_returns obtain rw where
    2: "finalRunway (ls_results st) (ls_runway st) = Some rw" by blast
  from 1 2 show ?thesis by (simp add: runSingleSimulation_def Let_def)
qed

subsection \<open>The example run\<close>

text \<open>
  On a random stream that is constantly \<open>1/4\<close> every normal deviate is its mean, since
  \<open>cos (2 \<pi> / 4) = 0\<close>.
\<close>

lemma randomNonZero_example: "randomNonZero exampleRandoms i = Some (1 / 4, Suc i)"
  by (subst randomNonZero.simps) (simp add: exampleRandoms_def)

lemma randomNormal_example:
  "randomNormal exampleRandoms i m s = Some (js_add (js_mul (Num 0) s) m, Suc (Suc i))"
  by (simp add: randomNormal_def randomNonZero_example)

lemma ex_base:
  "calculateBaseParameters exampleHistory (exampleParameters t (Some exampleOverrides)) = exampleBase"
  by (simp add: calculateBaseParameters_def Let_def exampleHistory_def exampleParameters_def
      exampleOverrides_def emptyCustomVariables_def customVariable_def js_or_undef_def js_or_def
      js_falsy_def arrayMean_def arrayStd_def exampleBase_def)

lemma ex_inflow1: "generateRandomInflow exampleRandoms i (Suc 0) exampleBase BASE = Some (Num 99750, i + 6)"
  by (simp add: generateRandomInflow_def randomNormal_example exampleBase_def inflowMultiplier_def
      seasonalityTable_def seasonalEntry_def js_index_def Let_def)

lemma ex_outflow1: "generateRandomOutflow exampleRandoms i (Suc 0) exampleBase BASE = Some (Num 414000, i + 6)"
  by (simp add: generateRandomOutflow_def randomNormal_example exampleBase_def outflowMultiplier_def
      seasonalityTable_def seasonalEntry_def js_index_def Let_def)

lemma ex_inflow2: "generateRandomInflow exampleRandoms i 2 exampleBase BASE = Some (Num 121275, i + 6)"
  by (simp add: generateRandomInflow_def randomNormal_example exampleBase_def inflowMultiplier_def
      seasonalityTable_def seasonalEntry_def js_index_def Let_def power2_eq_square)

lemma ex_outflow2: "generateRandomOutflow exampleRandoms i 2 exampleBase BASE = Some (Num 449914.5, i + 6)"
  by (simp add: generateRandomOutflow_def randomNormal_example exampleBase_def outflowMultiplier_def
      seasonalityTable_def seasonalEntry_def js_index_def Let_def power2_eq_square)

lemma ex_months2: "monthsUpTo 2 = [1, 2]"
  by (simp add: monthsUpTo_def upt_rec)

lemma ex_monthIndex [simp]: "monthIndex (exampleClock y m) = 9"
  by (simp add: exampleClock_def)

lemma ex_setMonth1: "setMonth (exampleClock y m) 10
    = \<lparr>fullYear = y, monthIndex = 10, dayOfMonth = 15, msOfDay = 0\<rparr>"
  by (simp add: setMonth_def exampleClock_def daysInMonth_def Let_def)

lemma ex_setMonth2: "setMonth (exampleClock y m) 11
    = \<lparr>fullYear = y, monthIndex = 11, dayOfMonth = 15, msOfDay = 0\<rparr>"
  by (simp add: setMonth_def exampleClock_def daysInMonth_def Let_def)

lemma ex_step1:
  "simulateMonth (exampleClock y m) exampleRandoms exampleBase BASE (Suc 0) exampleInit
     = Some (exampleState1 y)"
  by (simp add: simulateMonth_def ex_inflow1 ex_outflow1 ex_setMonth1 exampleInit_def
      exampleState1_def exampleMonth1_def Let_def)

lemma ex_step2:
  "simulateMonth (exampleClock y m) exampleRandoms exampleBase BASE 2 (exampleState1 y)
     = Some (exampleState2 y)"
  by (simp add: simulateMonth_def ex_inflow2 ex_outflow2 ex_setMonth2 exampleState1_def
      exampleState2_def exampleMonth1_def exampleMonth2_def Let_def)

lemma ex_run:
  "runSingleSimulation (exampleClock y) exampleRandoms 0 7
      (calculateBaseParameters exampleHistory (exampleParameters 2 (Some exampleOverrides)))
      (exampleParameters 2 (Some exampleOverrides)) = Some (exampleRun y)"
proof -
  have init: "\<lparr>ls_results = [], ls_balance = startingBalance exampleBase,
      ls_min = startingBalance exampleBase, ls_max = startingBalance exampleBase,
      ls_runway = None, ls_pos = 0\<rparr> = exampleInit"
    by (simp add: exampleInit_def exampleBase_def)
  have loop: "simulateMonths (exampleClock y) exampleRandoms exampleBase
      (scenario (exampleParameters 2 (Some exampleOverrides)))
      (monthsUpTo (timeHorizon (exampleParameters 2 (Some exampleOverrides))))
      \<lparr>ls_results = [], ls_balance = startingBalance exampleBase,
       ls_min = startingBalance exampleBase, ls_max = startingBalance exampleBase,
       ls_runway = None, ls_pos = 0\<rparr> = Some (exampleState2 y)"
    unfolding init by (simp add: exampleParameters_def ex_months2 ex_step1 ex_step2)
  have fin: "finalRunway (ls_results (exampleState2 y)) (ls_runway (exampleState2 y)) = Some (Some (Num 1))"
    by (simp add: finalRunway_def exampleState2_def)
  have "runSingleSimulation (exampleClock y) exampleRandoms 0 7 exampleBase
      (exampleParameters 2 (Some exampleOverrides)) = Some (exampleRun y)"
    unfolding runSingleSimulation_def Let_def loop
    by (simp add: fin) (simp add: exampleRun_def exampleState2_def)
  then show ?thesis by (simp add: ex_base)
qed

lemma ex_balances:
  "balances (Num 500000) (exampleRun y) = [Num 500000, Num 185750, Num (- 142889.5)]"
  by (simp add: balances_def exampleRun_def exampleMonth1_def exampleMonth2_def)

lemma startingBalance_calculated [simp]:
  "startingBalance (calculateBaseParameters h params) = Num 500000"
  by (simp add: calculateBaseParameters_def Let_def)

subsection \<open>The run with no history\<close>

lemma nan_base:
  "calculateBaseParameters emptyHistory (exampleParameters t None) =
     \<lparr>baseInflowMean = NaN, baseInflowStd = NaN, baseOutflowMean = NaN, baseOutflowStd = NaN,
      growthRate = \<lparr>mean = Num 0.05, std = Num 0.02\<rparr>, seasonality = seasonalityTable,
      startingBalance = Num 500000\<rparr>"
  by (simp add: calculateBaseParameters_def Let_def emptyHistory_def exampleParameters_def
      customVariable_def js_or_undef_def arrayMean_def arrayStd_def)

lemma nan_inflow:
  "generateRandomInflow exampleRandoms i m
     (calculateBaseParameters emptyHistory (exampleParameters t None)) sc = Some (NaN, i + 6)"
  by (simp add: generateRandomInflow_def randomNormal_example nan_base Let_def)

lemma nan_outflow:
  "generateRandomOutflow exampleRandoms i m
     (calculateBaseParameters emptyHistory (exampleParameters t None)) sc = Some (NaN, i + 6)"
  by (simp add: generateRandomOutflow_def randomNormal_example nan_base Let_def)

lemma nan_run:
  "runSingleSimulation (exampleClock 2024) exampleRandoms 0 3
      (calculateBaseParameters emptyHistory (exampleParameters 1 None)) (exampleParameters 1 None)
   = Some \<lparr>runNumber = 3,
       monthlyResults = [\<lparr>month = 1, inflow = NaN, outflow = NaN, netFlow = NaN,
          cumulativeBalance = NaN,
          date = \<lparr>fullYear = 2024, monthIndex = 10, dayOfMonth = 15, msOfDay = 0\<rparr>\<rparr>],
       finalBalance = NaN, minBalance = NaN, maxBalance = NaN, probabilityNegative = 0,
       runwayMonths = None\<rparr>"
proof -
  let ?bp = "calculateBaseParameters emptyHistory (exampleParameters 1 None)"
  have step: "simulateMonth (exampleClock 2024 (Suc 0)) exampleRandoms ?bp BASE (Suc 0)
      \<lparr>ls_results = [], ls_balance = Num 500000, ls_min = Num 500000, ls_max = Num 500000,
       ls_runway = None, ls_pos = 0\<rparr>
    = Some \<lparr>ls_results = [\<lparr>month = 1, inflow = NaN, outflow = NaN, netFlow = NaN,
          cumulativeBalance = NaN,
          date = \<lparr>fullYear = 2024, monthIndex = 10, dayOfMonth = 15, msOfDay = 0\<rparr>\<rparr>],
       ls_balance = NaN, ls_min = NaN, ls_max = NaN, ls_runway = None, ls_pos = 12\<rparr>"
    by (simp add: simulateMonth_def nan_inflow nan_outflow ex_setMonth1 Let_def)
  show ?thesis
    unfolding runSingleSimulation_def Let_def startingBalance_calculated
    by (simp add: exampleParameters_def monthsUpTo_def step [unfolded exampleParameters_def]
        finalRunway_def averageBurn_def js_or_def js_falsy_def)
qed


subsection \<open>The run that recovers\<close>

lemma rec_nonzero: "randomNonZero recoveryRandoms i = Some (recoveryRandoms i, Suc i)"
  by (subst randomNonZero.simps) (simp add: recoveryRandoms_def)

lemma rec_normal_quiet:
  assumes "i \<noteq> 21" "i \<noteq> 22" "i \<noteq> 23"
  shows "randomNormal recoveryRandoms i m s = Some (js_add (js_mul (Num 0) s) m, Suc (Suc i))"
  using assms by (simp add: randomNormal_def rec_nonzero recoveryRandoms_def)

lemma rec_normal_low:
  "randomNormal recoveryRandoms 22 m s = Some (js_add (js_mul (Num (- 1)) s) m, 24)"
  by (simp add: randomNormal_def rec_nonzero recoveryRandoms_def)

lemma rec_base:
  "calculateBaseParameters exampleHistory (exampleParameters t (Some recoveryOverrides)) = recoveryBase"
  by (simp add: calculateBaseParameters_def Let_def exampleHistory_def exampleParameters_def
      recoveryOverrides_def emptyCustomVariables_def customVariable_def js_or_undef_def js_or_def
      js_falsy_def arrayMean_def arrayStd_def recoveryBase_def)

lemma rec_inflow1: "generateRandomInflow recoveryRandoms 0 (Suc 0) recoveryBase BASE = Some (Num 399000, 6)"
  by (simp add: generateRandomInflow_def rec_normal_quiet recoveryBase_def inflowMultiplier_def
      seasonalityTable_def seasonalEntry_def js_index_def Let_def)

lemma rec_outflow1: "generateRandomOutflow recoveryRandoms 6 (Suc 0) recoveryBase BASE = Some (Num 1035000, 12)"
  by (simp add: generateRandomOutflow_def rec_normal_quiet recoveryBase_def outflowMultiplier_def
      seasonalityTable_def seasonalEntry_def js_index_def Let_def)

lemma rec_inflow2: "generateRandomInflow recoveryRandoms 12 2 recoveryBase BASE = Some (Num 485100, 18)"
  by (simp add: generateRandomInflow_def rec_normal_quiet recoveryBase_def inflowMultiplier_def
      seasonalityTable_def seasonalEntry_def js_index_def Let_def power2_eq_square)

lemma rec_outflow2: "generateRandomOutflow recoveryRandoms 18 2 recoveryBase BASE = Some (Num 112478.625, 24)"
  by (simp add: generateRandomOutflow_def rec_normal_quiet rec_normal_low recoveryBase_def outflowMultiplier_def
      seasonalityTable_def seasonalEntry_def js_index_def Let_def power2_eq_square)

lemma rec_step1:
  "simulateMonth (exampleClock 2024 m) recoveryRandoms recoveryBase BASE (Suc 0) exampleInit
     = Some recoveryState1"
  by (simp add: simulateMonth_def rec_inflow1 rec_outflow1 ex_setMonth1 exampleInit_def
      recoveryState1_def recoveryMonth1_def Let_def)

lemma rec_step2:
  "simulateMonth (exampleClock 2024 m) recoveryRandoms recoveryBase BASE 2 recoveryState1
     = Some recoveryState2"
  by (simp add: simulateMonth_def rec_inflow2 rec_outflow2 ex_setMonth2 recoveryState1_def
      recoveryState2_def recoveryMonth1_def recoveryMonth2_def Let_def)

lemma rec_run:
  "runSingleSimulation (exampleClock 2024) recoveryRandoms 0 7
      (calculateBaseParameters exampleHistory (exampleParameters 2 (Some recoveryOverrides)))
      (exampleParameters 2 (Some recoveryOverrides)) = Some recoveryRun"
proof -
  have init: "\<lparr>ls_results = [], ls_balance = startingBalance recoveryBase,
      ls_min = startingBalance recoveryBase, ls_max = startingBalance recoveryBase,
      ls_runway = None, ls_pos = 0\<rparr> = exampleInit"
    by (simp add: exampleInit_def recoveryBase_def)
  have loop: "simulateMonths (exampleClock 2024) recoveryRandoms recoveryBase
      (scenario (exampleParameters 2 (Some recoveryOverrides)))
      (monthsUpTo (timeHorizon (exampleParameters 2 (Some recoveryOverrides))))
      \<lparr>ls_results = [], ls_balance = startingBalance recoveryBase,
       ls_min = startingBalance recoveryBase, ls_max = startingBalance recoveryBase,
       ls_runway = None, ls_pos = 0\<rparr> = Some recoveryState2"
    unfolding init by (simp add: exampleParameters_def ex_months2 rec_step1 rec_step2)
  have fin: "finalRunway (ls_results recoveryState2) (ls_runway recoveryState2) = Some (Some (Num 0))"
    by (simp add: finalRunway_def recoveryState2_def)
  have "runSingleSimulation (exampleClock 2024) recoveryRandoms 0 7 recoveryBase
      (exampleParameters 2 (Some recoveryOverrides)) = Some recoveryRun"
    unfolding runSingleSimulation_def Let_def loop
    by (simp add: fin) (simp add: recoveryRun_def recoveryState2_def)
  then show ?thesis by (simp add: rec_base)
qed

lemma rec_balances:
  "balances (Num 500000) recoveryRun = [Num 500000, Num (- 136000), Num 236621.375]"
  by (simp add: balances_def recoveryRun_def recoveryMonth1_def recoveryMonth2_def)

lemma lively_example: "lively exampleRandoms"
  by (auto simp: lively_def exampleRandoms_def)

section \<open>The claims about a simulation run\<close>

text \<open>
  C1: \<open>runSimulation\<close> calls \<open>runSingleSimulation\<close> with the base parameters that
  \<open>calculateBaseParameters\<close> returns, whose starting balance is 500000. Let
  \<open>balances (Num 500000) r ! m\<close> be the balance of month \<open>m\<close>: the starting balance for
  \<open>m = 0\<close> and the cumulative balance of the record of month \<open>m\<close> after that. If the
  cumulative balance of a run is negative in some month, then \<open>runwayMonths\<close> is a
  number \<open>j\<close>, the balance of month \<open>j\<close> is at least 0, the balance of month \<open>j + 1\<close>
  is negative, and no balance up to month \<open>j\<close> is negative: month \<open>j + 1\<close> is the first
  negative one, whatever the balances after it are (in the example the balance is
  positive again in month 2, and \<open>runwayMonths\<close> stays 0).
\<close>

theorem C1_runway_is_month_before_first_negative:
  assumes run: "runSingleSimulation clock rs pos n (calculateBaseParameters h params) params = Some r"
    and neg: "\<exists>m \<in> set (monthlyResults r). js_lt (cumulativeBalance m) (Num 0)"
  shows "(\<exists>j. runwayMonths r = Some (Num (real j))
           \<and> Suc j < length (balances (Num 500000) r)
           \<and> js_le (Num 0) (balances (Num 500000) r ! j)
           \<and> js_lt (balances (Num 500000) r ! Suc j) (Num 0)
           \<and> (\<forall>i \<le> j. \<not> js_lt (balances (Num 500000) r ! i) (Num 0)))
         \<and> (\<forall>i < length (monthlyResults r). month (monthlyResults r ! i) = Suc i)
         \<and> startingBalance (calculateBaseParameters h params) = Num 500000"
proof -
  have start: "\<not> js_lt (startingBalance (calculateBaseParameters h params)) (Num 0)"
    by simp
  from neg have "\<exists>b \<in> set (balances (startingBalance (calculateBaseParameters h params)) r). js_lt b (Num 0)"
    by (auto simp: balances_def)
  from run_runway [OF run start this] show ?thesis by simp
qed

theorem C1_runway_is_month_before_first_negative_witness:
  "runSingleSimulation (exampleClock 2024) recoveryRandoms 0 7
      (calculateBaseParameters exampleHistory (exampleParameters 2 (Some recoveryOverrides)))
      (exampleParameters 2 (Some recoveryOverrides)) = Some recoveryRun
   \<and> balances (Num 500000) recoveryRun = [Num 500000, Num (- 136000), Num 236621.375]
   \<and> js_lt (cumulativeBalance recoveryMonth1) (Num 0)
   \<and> js_lt (Num 0) (cumulativeBalance recoveryMonth2)
   \<and> runwayMonths recoveryRun = Some (Num 0)
   \<and> (\<exists>j. runwayMonths recoveryRun = Some (Num (real j))
         \<and> js_le (Num 0) (balances (Num 500000) recoveryRun ! j)
         \<and> js_lt (balances (Num 500000) recoveryRun ! Suc j) (Num 0))"
proof -
  have neg: "\<exists>m \<in> set (monthlyResults recoveryRun). js_lt (cumulativeBalance m) (Num 0)"
    by (simp add: recoveryRun_def recoveryMonth1_def)
  from C1_runway_is_month_before_first_negative [OF rec_run neg]
  have "\<exists>j. runwayMonths recoveryRun = Some (Num (real j))
         \<and> js_le (Num 0) (balances (Num 500000) recoveryRun ! j)
         \<and> js_lt (balances (Num 500000) recoveryRun ! Suc j) (Num 0)"
    by blast
  moreover have "js_lt (cumulativeBalance recoveryMonth1) (Num 0)"
    "js_lt (Num 0) (cumulativeBalance recoveryMonth2)"
    by (simp_all add: recoveryMonth1_def recoveryMonth2_def)
  moreover have "runwayMonths recoveryRun = Some (Num 0)"
    by (simp add: recoveryRun_def)
  ultimately show ?thesis using rec_run rec_balances by simp
qed

text \<open>
  C2, as stated, fails: with no transaction in the history and no override, the means are
  \<open>0 / 0\<close>, every flow is \<open>NaN\<close>, and so are the balance of month 1, the minimum and
  the maximum; no comparison with \<open>NaN\<close> holds.
\<close>

theorem C2_fails_on_NaN:
  "map_option (\<lambda>r. (minBalance r, map cumulativeBalance (monthlyResults r), maxBalance r))
     (runSingleSimulation (exampleClock 2024) exampleRandoms 0 3
        (calculateBaseParameters emptyHistory (exampleParameters 1 None)) (exampleParameters 1 None))
   = Some (NaN, [NaN], NaN)
   \<and> \<not> js_le NaN NaN
   \<and> \<not> js_le NaN (startingBalance (calculateBaseParameters emptyHistory (exampleParameters 1 None)))"
  by (simp add: nan_run)

text \<open>
  C2, amended: for every run produced by \<open>runSingleSimulation\<close> in which neither the
  starting balance nor the cumulative balance of any month is \<open>NaN\<close>, the minimum and
  the maximum bound the cumulative balance of every monthly record, and the starting
  balance.
\<close>

theorem C2_balances_within_min_max:
  assumes run: "runSingleSimulation clock rs pos n bp params = Some r"
    and nonan: "\<forall>b \<in> set (balances (startingBalance bp) r). b \<noteq> NaN"
  shows "(\<forall>m \<in> set (monthlyResults r).
            js_le (minBalance r) (cumulativeBalance m) \<and> js_le (cumulativeBalance m) (maxBalance r))
         \<and> js_le (minBalance r) (startingBalance bp) \<and> js_le (startingBalance bp) (maxBalance r)"
  using run_bounded [OF run nonan] by (simp add: balances_def)

theorem C2_balances_within_min_max_witness:
  "runSingleSimulation (exampleClock 2024) exampleRandoms 0 7
      (calculateBaseParameters exampleHistory (exampleParameters 2 (Some exampleOverrides)))
      (exampleParameters 2 (Some exampleOverrides)) = Some (exampleRun 2024)
   \<and> balances (Num 500000) (exampleRun 2024) = [Num 500000, Num 185750, Num (- 142889.5)]
   \<and> js_le (minBalance (exampleRun 2024)) (cumulativeBalance (exampleMonth1 2024))
   \<and> js_le (cumulativeBalance (exampleMonth1 2024)) (maxBalance (exampleRun 2024))
   \<and> js_le (minBalance (exampleRun 2024)) (Num 500000)
   \<and> js_le (Num 500000) (maxBalance (exampleRun 2024))"
proof -
  have nonan: "\<forall>b \<in> set (balances (startingBalance
       (calculateBaseParameters exampleHistory (exampleParameters 2 (Some exampleOverrides))))
       (exampleRun 2024)). b \<noteq> NaN"
    by (simp add: ex_balances)
  have "exampleMonth1 2024 \<in> set (monthlyResults (exampleRun 2024))"
    by (simp add: exampleRun_def)
  with C2_balances_within_min_max [OF ex_run nonan] ex_run [of 2024] ex_balances [of 2024]
  show ?thesis by simp
qed

text \<open>
  C9, as stated, fails: every monthly record has a \<open>date\<close> that is read from the wall
  clock. The same run number, base parameters, simulation parameters and random stream,
  executed in October 2024 and in October 2025, give two results that differ.
\<close>

theorem C9_dates_follow_the_clock:
  "runSingleSimulation (exampleClock 2024) exampleRandoms 0 7
      (calculateBaseParameters exampleHistory (exampleParameters 2 (Some exampleOverrides)))
      (exampleParameters 2 (Some exampleOverrides)) = Some (exampleRun 2024)
   \<and> runSingleSimulation (exampleClock 2025) exampleRandoms 0 7
      (calculateBaseParameters exampleHistory (exampleParameters 2 (Some exampleOverrides)))
      (exampleParameters 2 (Some exampleOverrides)) = Some (exampleRun 2025)
   \<and> exampleRun 2024 \<noteq> exampleRun 2025
   \<and> map (fullYear \<circ> date) (monthlyResults (exampleRun 2024)) = [2024, 2024]
   \<and> map (fullYear \<circ> date) (monthlyResults (exampleRun 2025)) = [2025, 2025]"
  by (simp add: ex_run) (simp add: exampleRun_def exampleMonth1_def exampleMonth2_def)

text \<open>
  C9, amended: two executions of \<open>runSingleSimulation\<close> with the same run number, base
  parameters, simulation parameters and stream of random values, whatever the clock
  shows in each, either both return or both do not, and the two results agree in every
  field but the dates of the monthly records. Both return when the stream has a value
  other than zero after every position.
\<close>

theorem C9_same_results_but_dates:
  "map_option withoutDates (runSingleSimulation clock rs pos n bp params)
     = map_option withoutDates (runSingleSimulation clock' rs pos n bp params)
   \<and> (lively rs \<longrightarrow>
        (\<exists>r r'. runSingleSimulation clock rs pos n bp params = Some r
               \<and> runSingleSimulation clock' rs pos n bp params = Some r'
               \<and> withoutDates r = withoutDates r'))"
proof -
  have eq: "map_option withoutDates (runSingleSimulation clock rs pos n bp params)
     = map_option withoutDates (runSingleSimulation clock' rs pos n bp params)"
    by (rule run_clock)
  have "\<exists>r r'. runSingleSimulation clock rs pos n bp params = Some r
               \<and> runSingleSimulation clock' rs pos n bp params = Some r'
               \<and> withoutDates r = withoutDates r'" if "lively rs"
  proof -
    from run_returns [OF that] obtain r where r: "runSingleSimulation clock rs pos n bp params = Some r"
      by blast
    from run_returns [OF that] obtain r' where r': "runSingleSimulation clock' rs pos n bp params = Some r'"
      by blast
    from eq r r' have "withoutDates r = withoutDates r'" by simp
    with r r' show ?thesis by blast
  qed
  with eq show ?thesis by blast
qed

theorem C9_same_results_but_dates_witness:
  "lively exampleRandoms
   \<and> withoutDates (exampleRun 2024) = withoutDates (exampleRun 2025)
   \<and> map undated (monthlyResults (exampleRun 2024))
      = [(1, Num 99750, Num 414000, Num (- 314250), Num 185750),
         (2, Num 121275, Num 449914.5, Num (- 328639.5), Num (- 142889.5))]"
proof -
  from C9_same_results_but_dates [of "exampleClock 2024" exampleRandoms 0 7
      "calculateBaseParameters exampleHistory (exampleParameters 2 (Some exampleOverrides))"
      "exampleParameters 2 (Some exampleOverrides)" "exampleClock 2025"] lively_example
  have "withoutDates (exampleRun 2024) = withoutDates (exampleRun 2025)"
    by (simp add: ex_run)
  with lively_example show ?thesis
    by (simp add: exampleRun_def exampleMonth1_def exampleMonth2_def undated_def)
qed

section \<open>The claims about the statistics\<close>


lemma sortAscending_mset [simp]: "mset (sortAscending E xs) = mset xs"
  by (simp add: sortAscending_def)

lemma sortAscending_length [simp]: "length (sortAscending E xs) = length xs"
  using sortAscending_mset [of E xs] by (rule mset_eq_length)





lemma count_as_sum:
  "real (length (filter P xs)) = sum_list (map (\<lambda>x. if P x then 1 else 0) xs)"
  by (induction xs) auto

text \<open>
  C3: the \<open>probabilityNegative\<close> of a run is 1 if its minimum balance is negative and 0
  otherwise; for a list of \<open>N > 0\<close> runs, the aggregate \<open>probabilityNegative\<close> is the
  number of runs with a negative minimum balance divided by \<open>N\<close>, which is the mean of
  the runs' indicators when every run has the indicator of its minimum balance.
\<close>

theorem C3_probability_negative:
  "(runSingleSimulation clock rs pos n bp params = Some r \<longrightarrow>
      probabilityNegative r = (if js_lt (minBalance r) (Num 0) then 1 else 0))
   \<and> (runs' \<noteq> [] \<longrightarrow>
      stat_probabilityNegative (calculateStatistics E runs')
        = Num (real (length (filter (\<lambda>r. js_lt (minBalance r) (Num 0)) runs')) / real (length runs')))
   \<and> (runs' \<noteq> [] \<and> (\<forall>r \<in> set runs'. probabilityNegative r = (if js_lt (minBalance r) (Num 0) then 1 else 0)) \<longrightarrow>
      stat_probabilityNegative (calculateStatistics E runs')
        = Num (sum_list (map probabilityNegative runs') / real (length runs')))"
proof -
  have 1: "runSingleSimulation clock rs pos n bp params = Some r \<longrightarrow>
      probabilityNegative r = (if js_lt (minBalance r) (Num 0) then 1 else 0)"
    by (auto elim!: run_Some)
  have 2: "stat_probabilityNegative (calculateStatistics E runs')
        = Num (real (length (filter (\<lambda>r. js_lt (minBalance r) (Num 0)) runs')) / real (length runs'))"
    if "runs' \<noteq> []"
    using that by (simp add: calculateStatistics_def Let_def)
  have 3: "stat_probabilityNegative (calculateStatistics E runs')
        = Num (sum_list (map probabilityNegative runs') / real (length runs'))"
    if ne: "runs' \<noteq> []"
      and ind: "\<forall>r \<in> set runs'. probabilityNegative r = (if js_lt (minBalance r) (Num 0) then 1 else 0)"
  proof -
    from ind have e: "sum_list (map probabilityNegative runs')
        = sum_list (map (\<lambda>r. if js_lt (minBalance r) (Num 0) then 1 else 0) runs')"
      by (simp cong: map_cong)
    show ?thesis unfolding e using 2 [OF ne] by (simp add: count_as_sum)
  qed
  from 1 2 3 show ?thesis by blast
qed

theorem C3_probability_negative_witness:
  "runSingleSimulation (exampleClock 2024) exampleRandoms 0 7
      (calculateBaseParameters exampleHistory (exampleParameters 2 (Some exampleOverrides)))
      (exampleParameters 2 (Some exampleOverrides)) = Some (exampleRun 2024)
   \<and> js_lt (minBalance (exampleRun 2024)) (Num 0)
   \<and> probabilityNegative (exampleRun 2024) = 1
   \<and> [exampleRun 2024, runWith 30 5, runWith 10 (- 2), runWith 20 7] \<noteq> []
   \<and> map probabilityNegative [exampleRun 2024, runWith 30 5, runWith 10 (- 2), runWith 20 7] = [1, 0, 1, 0]
   \<and> stat_probabilityNegative
        (calculateStatistics (\<lambda>xs. xs) [exampleRun 2024, runWith 30 5, runWith 10 (- 2), runWith 20 7])
      = Num (1 / 2)
   \<and> stat_probabilityNegative
        (calculateStatistics (\<lambda>xs. xs) [exampleRun 2024, runWith 30 5, runWith 10 (- 2), runWith 20 7])
      = Num (sum_list (map probabilityNegative [exampleRun 2024, runWith 30 5, runWith 10 (- 2), runWith 20 7])
             / real (length [exampleRun 2024, runWith 30 5, runWith 10 (- 2), runWith 20 7]))"
proof -
  let ?runs = "[exampleRun 2024, runWith 30 5, runWith 10 (- 2), runWith 20 7]"
  have m: "js_lt (minBalance (exampleRun 2024)) (Num 0)" by (simp add: exampleRun_def)
  have ne: "?runs \<noteq> []" by simp
  have ind: "\<forall>r \<in> set ?runs. probabilityNegative r = (if js_lt (minBalance r) (Num 0) then 1 else 0)"
    by (simp add: exampleRun_def runWith_def)
  have probs: "map probabilityNegative ?runs = [1, 0, 1, 0]"
    by (simp add: exampleRun_def runWith_def)
  note T = C3_probability_negative [of "exampleClock 2024" exampleRandoms 0 7
      "calculateBaseParameters exampleHistory (exampleParameters 2 (Some exampleOverrides))"
      "exampleParameters 2 (Some exampleOverrides)" "exampleRun 2024" ?runs "\<lambda>xs. xs"]
  from T ex_run [of 2024]
  have p: "probabilityNegative (exampleRun 2024) = (if js_lt (minBalance (exampleRun 2024)) (Num 0) then 1 else 0)"
    by blast
  from T ne
  have s: "stat_probabilityNegative (calculateStatistics (\<lambda>xs. xs) ?runs)
      = Num (real (length (filter (\<lambda>r. js_lt (minBalance r) (Num 0)) ?runs)) / real (length ?runs))"
    by blast
  from T ne ind
  have a: "stat_probabilityNegative (calculateStatistics (\<lambda>xs. xs) ?runs)
      = Num (sum_list (map probabilityNegative ?runs) / real (length ?runs))"
    by blast
  from s have h: "stat_probabilityNegative (calculateStatistics (\<lambda>xs. xs) ?runs) = Num (1 / 2)"
    by (simp add: exampleRun_def runWith_def)
  from p m have one: "probabilityNegative (exampleRun 2024) = 1" by simp
  from ex_run [of 2024] m one ne probs h a show ?thesis by blast
qed


text \<open>
  An array of two or more elements that holds \<open>NaN\<close> twice is ascending in no order,
  since \<open>NaN \<le> NaN\<close> is false.
\<close>

lemma replicate_of_mset:
  assumes "mset ys = mset (replicate n a)"
  shows "ys = replicate n a"
proof -
  from assms have l: "length ys = n" using mset_eq_length by fastforce
  from assms have "set ys = set (replicate n a)" by (rule mset_eq_setD)
  then have "\<forall>y \<in> set ys. y = a" by auto
  then have "replicate (length ys) a = ys" by (rule replicate_length_same)
  with l show ?thesis by simp
qed

lemma sortAscending_all_NaN: "sortAscending E (replicate n NaN) = replicate n NaN"
proof -
  have "mset (sortAscending E (replicate n NaN)) = mset (replicate n NaN)" by simp
  then show ?thesis by (rule replicate_of_mset)
qed

lemma all_NaN_not_ascending: "\<not> sorted_wrt js_le (sortAscending E [NaN, NaN])"
  using sortAscending_all_NaN [of E 2] by (simp add: numeral_2_eq_2)




end
